theory Spec2Isabelle
  imports
    Complex_Main
    "HOL-Library.Char_ord"
    "HOL-Library.List_Lexorder"
    "HOL-Library.Multiset"
    "HOL-Library.AList"
begin

section \<open>QuizBank: question fingerprinting, quality scoring and answer reconciliation\<close>

text \<open>
  A shallow embedding of the pure logic of \<^verbatim>\<open>src/database/supabase-manager.js\<close>:
  \<^verbatim>\<open>calculateTextQuality\<close>, \<^verbatim>\<open>generateQuestionHash\<close>, \<^verbatim>\<open>simpleHash\<close>,
  \<^verbatim>\<open>updateBestAnswer\<close> and the batch path
  \<^verbatim>\<open>processCanvasSubmissionsWithQuestionData\<close>.

  Conventions of the embedding.
  \<^item> A JavaScript string is a \<open>string\<close>; each \<open>char\<close> stands for one UTF-16 code unit in
    the range U+0000 .. U+00FF, so \<open>length\<close> is \<^verbatim>\<open>.length\<close> and the character classes
    \<^verbatim>\<open>\s\<close>, \<^verbatim>\<open>\w\<close>, \<^verbatim>\<open>\d\<close> and \<^verbatim>\<open>toLowerCase\<close> are written out for that range.
  \<^item> A value that may be \<^verbatim>\<open>null\<close> or \<^verbatim>\<open>undefined\<close> is an \<open>option\<close>; \<open>None\<close> is the
    missing value.
  \<^item> A JavaScript number that holds points or a confidence is a \<open>rat\<close>: the exact quotient
    stands for the IEEE quotient, and NaN and the infinities are left out (every division
    of the source is guarded against a zero divisor, see below).
  \<^item> A thrown exception is the \<open>Inl\<close> branch of a sum.
\<close>

datatype js_error = TypeError

subsection \<open>Strings\<close>

definition code_unit :: "char \<Rightarrow> nat" where
  "code_unit c = of_char c"

text \<open>\<^verbatim>\<open>\s\<close>: TAB, LF, VT, FF, CR, SPACE and U+00A0.\<close>

definition is_space :: "char \<Rightarrow> bool" where
  "is_space c = (code_unit c \<in> {9, 10, 11, 12, 13, 32, 160})"

text \<open>\<^verbatim>\<open>\d\<close>: the ASCII digits.\<close>

definition is_digit :: "char \<Rightarrow> bool" where
  "is_digit c = (48 \<le> code_unit c \<and> code_unit c \<le> 57)"

text \<open>\<^verbatim>\<open>\w\<close>: the ASCII letters, the ASCII digits and the underscore.\<close>

definition is_word :: "char \<Rightarrow> bool" where
  "is_word c =
     ((65 \<le> code_unit c \<and> code_unit c \<le> 90) \<or> (97 \<le> code_unit c \<and> code_unit c \<le> 122)
      \<or> is_digit c \<or> code_unit c = 95)"

text \<open>
  \<^verbatim>\<open>toLowerCase\<close> on one code unit: A-Z, and the Latin-1 capitals U+00C0 .. U+00DE
  without the multiplication sign U+00D7, move up by 32.
\<close>

definition lower_char :: "char \<Rightarrow> char" where
  "lower_char c =
     (let n = code_unit c in
      if (65 \<le> n \<and> n \<le> 90) \<or> (192 \<le> n \<and> n \<le> 222 \<and> n \<noteq> 215)
      then char_of (n + 32) else c)"

definition toLowerCase :: "string \<Rightarrow> string" where
  "toLowerCase s = map lower_char s"

definition trim :: "string \<Rightarrow> string" where
  "trim s = rev (dropWhile is_space (rev (dropWhile is_space s)))"

definition startsWith :: "string \<Rightarrow> string \<Rightarrow> bool" where
  "startsWith s p = (take (length p) s = p)"

fun includes_str :: "string \<Rightarrow> string \<Rightarrow> bool" where
  "includes_str [] p = (p = [])"
| "includes_str (c # cs) p = (startsWith (c # cs) p \<or> includes_str cs p)"

text \<open>\<^verbatim>\<open>s.match(/^Question \d+$/)\<close>, as a truth value.\<close>

definition matches_placeholder :: "string \<Rightarrow> bool" where
  "matches_placeholder s =
     (startsWith s ''Question '' \<and> drop 9 s \<noteq> [] \<and> list_all is_digit (drop 9 s))"

text \<open>
  \<^verbatim>\<open>s.replace(/\s+/g, ' ')\<close>: every maximal run of white space becomes one space. The flag
  says whether the previous code unit belonged to a run.
\<close>

fun collapse_ws :: "bool \<Rightarrow> string \<Rightarrow> string" where
  "collapse_ws in_run [] = []"
| "collapse_ws in_run (c # cs) =
     (if is_space c
      then (if in_run then collapse_ws True cs else CHR '' '' # collapse_ws True cs)
      else c # collapse_ws False cs)"

text \<open>\<^verbatim>\<open>arr.join(sep)\<close>.\<close>

fun join :: "string \<Rightarrow> string list \<Rightarrow> string" where
  "join sep [] = []"
| "join sep [x] = x"
| "join sep (x # y # ys) = x @ sep @ join sep (y # ys)"

subsection \<open>The quality scorer\<close>

text \<open>
  \<^verbatim>\<open>calculateTextQuality(questionText, source)\<close>, lines 293-314. The first use of the text
  is \<^verbatim>\<open>questionText.length\<close>, which throws a TypeError on \<^verbatim>\<open>null\<close> and \<^verbatim>\<open>undefined\<close>.
\<close>

definition textQualityOf :: "string \<Rightarrow> string \<Rightarrow> int" where
  "textQualityOf questionText source =
     (let score = 0;
          score = (if source = ''dom'' then score + 100
                   else if source = ''canvas_api'' then score + 50
                   else if source = ''placeholder'' then score + 10
                   else score);
          lengthScore = min (int (length questionText)) 200;
          score = score + lengthScore;
          score = (if matches_placeholder questionText then score - 50 else score);
          score = (if includes_str questionText ''Question ID'' then score - 30 else score);
          score = (if includes_str questionText ''?'' then score + 20 else score);
          score = (if length questionText > 20 then score + 10 else score)
      in max 0 score)"

definition calculateTextQuality :: "string option \<Rightarrow> string \<Rightarrow> js_error + int" where
  "calculateTextQuality questionText source =
     (case questionText of
        None \<Rightarrow> Inl TypeError
      | Some t \<Rightarrow> Inr (textQualityOf t source))"

subsection \<open>The fingerprint generator\<close>

text \<open>
  \<^verbatim>\<open>ToInt32\<close>: what \<^verbatim>\<open>hash & hash\<close> and the shift make of a number, the value modulo
  \<open>2 ^ 32\<close> read as two's complement.
\<close>

definition toInt32 :: "int \<Rightarrow> int" where
  "toInt32 x = (x + 2 ^ 31) mod 2 ^ 32 - 2 ^ 31"

definition hash_step :: "int \<Rightarrow> char \<Rightarrow> int" where
  "hash_step hash c =
     (let char = int (code_unit c);
          hash = (toInt32 (toInt32 hash * 2 ^ 5) - hash) + char
      in toInt32 hash)"

definition digit36 :: "nat \<Rightarrow> char" where
  "digit36 d = ''0123456789abcdefghijklmnopqrstuvwxyz'' ! d"

text \<open>\<^verbatim>\<open>n.toString(36)\<close> for an integer \<open>n \<ge> 0\<close>.\<close>

fun toString36 :: "nat \<Rightarrow> string" where
  "toString36 n = (if n < 36 then [digit36 n] else toString36 (n div 36) @ [digit36 (n mod 36)])"

declare toString36.simps [simp del]

text \<open>\<^verbatim>\<open>simpleHash(str)\<close>, lines 1150-1158.\<close>

definition simpleHash :: "string \<Rightarrow> string" where
  "simpleHash str = toString36 (nat \<bar>foldl hash_step 0 str\<bar>)"

definition cleanText :: "string \<Rightarrow> string" where
  "cleanText questionText =
     trim (toLowerCase
       (filter (\<lambda>c. is_word c \<or> is_space c \<or> c = CHR ''?'' \<or> c = CHR ''.'' \<or> c = CHR ''!'')
          (collapse_ws False questionText)))"

definition cleanOption :: "string \<Rightarrow> string" where
  "cleanOption opt = trim (filter (\<lambda>c. is_word c \<or> is_space c) (toLowerCase opt))"

text \<open>
  The body of \<^verbatim>\<open>generateQuestionHash\<close>, lines 1126-1145, on a text that is a string.
  \<^verbatim>\<open>Array.prototype.sort\<close> without a comparator orders strings by code units, which is the
  lexicographic order of \<open>string\<close>.
\<close>

definition hashInput :: "string \<Rightarrow> string \<Rightarrow> string list option \<Rightarrow> string" where
  "hashInput questionText questionType options =
     (let hashInput = questionType @ '':'' @ cleanText questionText
      in case options of
           None \<Rightarrow> hashInput
         | Some opts \<Rightarrow> hashInput @ '':'' @ join ''|'' (sort (map cleanOption opts)))"

definition questionHashOf :: "string \<Rightarrow> string \<Rightarrow> string list option \<Rightarrow> string" where
  "questionHashOf questionText questionType options =
     simpleHash (hashInput questionText questionType options)"

text \<open>
  \<^verbatim>\<open>generateQuestionHash(questionText, questionType, options)\<close>: the first use of the text
  is \<^verbatim>\<open>questionText.replace\<close>, a TypeError on \<^verbatim>\<open>null\<close> and \<^verbatim>\<open>undefined\<close>.
\<close>

definition generateQuestionHash ::
  "string option \<Rightarrow> string \<Rightarrow> string list option \<Rightarrow> js_error + string" where
  "generateQuestionHash questionText questionType options =
     (case questionText of
        None \<Rightarrow> Inl TypeError
      | Some t \<Rightarrow> Inr (questionHashOf t questionType options))"

subsection \<open>Truthiness and defaults\<close>

text \<open>
  \<^verbatim>\<open>a || b\<close> yields \<^verbatim>\<open>b\<close> when \<^verbatim>\<open>a\<close> is falsy: \<^verbatim>\<open>null\<close>, \<^verbatim>\<open>undefined\<close>, the empty string
  and the number 0 are the falsy values that occur here.
\<close>

definition truthy_str :: "string option \<Rightarrow> bool" where
  "truthy_str a = (case a of None \<Rightarrow> False | Some s \<Rightarrow> s \<noteq> [])"

definition truthy_num :: "rat option \<Rightarrow> bool" where
  "truthy_num a = (case a of None \<Rightarrow> False | Some v \<Rightarrow> v \<noteq> 0)"

definition or_else :: "string option \<Rightarrow> string option \<Rightarrow> string option" where
  "or_else a b = (if truthy_str a then a else b)"

definition or_default :: "string option \<Rightarrow> string \<Rightarrow> string" where
  "or_default a d = (case a of None \<Rightarrow> d | Some s \<Rightarrow> if s \<noteq> [] then s else d)"

definition num_or :: "rat option \<Rightarrow> rat \<Rightarrow> rat" where
  "num_or a d = (case a of None \<Rightarrow> d | Some v \<Rightarrow> if v \<noteq> 0 then v else d)"

definition int_or :: "int option \<Rightarrow> int \<Rightarrow> int" where
  "int_or a d = (case a of None \<Rightarrow> d | Some v \<Rightarrow> if v \<noteq> 0 then v else d)"

subsection \<open>The answer reconciler: \<^verbatim>\<open>updateBestAnswer\<close>\<close>

text \<open>
  The object that \<^verbatim>\<open>saveSubmission\<close> hands to \<^verbatim>\<open>updateBestAnswer\<close>. The rows of the
  batch path extend it with further fields.
\<close>

record submission =
  user_answer :: "string option"
  is_correct :: "bool option"
  points_earned :: "rat option"
  points_possible :: "rat option"
  answer_fields :: "(string \<times> string) list option"

text \<open>
  Lines 395-400. The ratio is taken only when \<^verbatim>\<open>points_earned\<close> and
  \<^verbatim>\<open>points_possible\<close> are both truthy and the latter is positive, so the divisor is
  never zero.
\<close>

definition confidenceScore :: "'a submission_scheme \<Rightarrow> rat" where
  "confidenceScore submission =
     (let confidenceScore = (if is_correct submission = Some True then 1 else 0);
          confidenceScore =
            (if truthy_num (points_earned submission) \<and> truthy_num (points_possible submission)
                \<and> num_or (points_possible submission) 0 > 0
             then min 1 (num_or (points_earned submission) 0 / num_or (points_possible submission) 0)
             else confidenceScore)
      in max 0 (min 1 confidenceScore))"

text \<open>What \<^verbatim>\<open>getBestAnswer\<close> returns when a best answer is stored.\<close>

record stored_best_answer =
  sb_question_hash :: string
  sb_answer_text :: "string option"
  sb_confidence_score :: "rat option"
  sb_source_submission_id :: "string option"

text \<open>The parameters of the remote call \<^verbatim>\<open>qb_update_best_answer\<close>.\<close>

record best_answer_update =
  p_question_hash :: string
  p_answer_text :: "string option"
  p_answer_fields :: "(string \<times> string) list option"
  p_confidence_score :: rat
  p_source_submission_id :: string

text \<open>
  \<^verbatim>\<open>updateBestAnswer(questionHash, submission, submissionId)\<close>, lines 391-415, with the
  answer of \<^verbatim>\<open>getBestAnswer\<close> as \<open>currentBest\<close>. The outcome is the remote write that is
  issued, if any, and the value returned: the pair of hash and confidence, or
  \<^verbatim>\<open>undefined\<close>. The write is the only way this function changes the stored best answer.
\<close>

record update_outcome =
  issued :: "best_answer_update option"
  returned :: "(string \<times> rat) option"

definition updateBestAnswer ::
  "stored_best_answer option \<Rightarrow> string \<Rightarrow> 'a submission_scheme \<Rightarrow> string \<Rightarrow> update_outcome" where
  "updateBestAnswer currentBest questionHash submission submissionId =
     (let confidenceScore = confidenceScore submission in
      if (case currentBest of
            None \<Rightarrow> True
          | Some best \<Rightarrow> confidenceScore > num_or (sb_confidence_score best) 0)
      then \<lparr>issued = Some \<lparr>p_question_hash = questionHash,
                            p_answer_text = user_answer submission,
                            p_answer_fields = answer_fields submission,
                            p_confidence_score = confidenceScore,
                            p_source_submission_id = submissionId\<rparr>,
            returned = Some (questionHash, confidenceScore)\<rparr>
      else \<lparr>issued = None, returned = None\<rparr>)"

subsection \<open>The batch path: data\<close>

text \<open>
  The value of \<^verbatim>\<open>questionData.correct\<close>: the platform sends a boolean, a string such as
  \<^verbatim>\<open>"partial"\<close>, or nothing.
\<close>

datatype correct_value = CBool bool | CStr string | CMissing

definition truthy_correct :: "correct_value \<Rightarrow> bool" where
  "truthy_correct c = (case c of CBool b \<Rightarrow> b | CStr s \<Rightarrow> s \<noteq> [] | CMissing \<Rightarrow> False)"

text \<open>
  One entry of \<^verbatim>\<open>submission.submission_data\<close>. Identifiers are held as the strings that
  template literals make of them; an identifier is a non-empty string or a number other
  than 0, so it is truthy exactly when its string is not empty. \<open>qd_points\<close> and \<open>qd_points_possible\<close> are \<open>None\<close> when
  the field is not a number. \<open>qd_other_fields\<close> are the remaining properties of the object,
  a missing value for \<^verbatim>\<open>null\<close>.
\<close>

record question_data =
  qd_question_id :: string
  qd_question_text :: "string option"
  qd_question_type :: "string option"
  qd_text :: "string option"
  qd_correct :: correct_value
  qd_points :: "rat option"
  qd_points_possible :: "rat option"
  qd_other_fields :: "(string \<times> string option) list"

record canvas_submission =
  submission_data :: "question_data list option"

record dom_question =
  dq_canvas_question_id :: string
  dq_questionText :: "string option"
  dq_questionType :: "string option"
  dq_options :: "string list option"

text \<open>A question row as the remote store returns it.\<close>

record existing_question =
  eq_question_hash :: string
  eq_question_text :: string
  eq_question_type :: string
  eq_course_id :: string
  eq_first_seen_quiz_id :: string
  eq_text_quality_score :: "int option"
  eq_text_source :: string
  eq_metadata :: "string option"
  eq_canvas_question_id :: "string option"

text \<open>An element of \<^verbatim>\<open>questionsToSave\<close>.\<close>

record question_row =
  q_question_hash :: string
  q_question_text :: string
  q_question_type :: string
  q_course_id :: string
  q_first_seen_quiz_id :: string
  q_text_quality_score :: int
  q_text_source :: string
  q_metadata :: "string option"

text \<open>An element of \<^verbatim>\<open>submissionsToSave\<close>: a submission with three more fields.\<close>

record submission_row = submission +
  question_hash :: string
  quiz_id :: string
  canvas_question_id :: string

text \<open>An element of \<^verbatim>\<open>bestAnswersToUpdate\<close>.\<close>

record best_answer =
  b_question_hash :: string
  b_answer_text :: "string option"
  b_answer_fields :: question_data
  b_confidence_score :: rat
  b_source_submission_id :: "string option"

text \<open>
  A value of the map \<^verbatim>\<open>processedQuestions\<close>: the object with the merge information
  (lines 929-938) or the bare hash string (line 980).
\<close>

datatype processed = MergeInfo string "string option" bool | HashString string

text \<open>\<^verbatim>\<open>q.needsMerge\<close> as a truth value; a string has no such property.\<close>

fun needsMerge :: "processed \<Rightarrow> bool" where
  "needsMerge (MergeInfo newHash oldHash flag) = flag"
| "needsMerge (HashString h) = False"

text \<open>
  A JavaScript \<^verbatim>\<open>Map\<close> whose order of keys matters is an association list:
  \<open>map_of\<close> is \<^verbatim>\<open>get\<close>, \<open>AList.update\<close> is \<^verbatim>\<open>set\<close> (a new key goes to the end, a known key
  keeps its place).
\<close>

record batch_state =
  questionsToSave :: "question_row list"
  submissionsToSave :: "submission_row list"
  bestAnswersToUpdate :: "best_answer list"
  processedQuestions :: "(string \<times> processed) list"

subsection \<open>The batch path: helpers\<close>

definition hex_digit :: "nat \<Rightarrow> char" where
  "hex_digit d = ''0123456789abcdef'' ! d"

text \<open>\<^verbatim>\<open>JSON.stringify\<close> of one code unit inside a string.\<close>

definition json_escape :: "char \<Rightarrow> string" where
  "json_escape c =
     (let n = code_unit c in
      if n = 34 then [CHR 0x5C, CHR 0x22]
      else if n = 92 then [CHR 0x5C, CHR 0x5C]
      else if n = 8 then [CHR 0x5C, CHR ''b'']
      else if n = 9 then [CHR 0x5C, CHR ''t'']
      else if n = 10 then [CHR 0x5C, CHR ''n'']
      else if n = 12 then [CHR 0x5C, CHR ''f'']
      else if n = 13 then [CHR 0x5C, CHR ''r'']
      else if n < 32 then [CHR 0x5C, CHR ''u'', CHR ''0'', CHR ''0'', hex_digit (n div 16), hex_digit (n mod 16)]
      else [c])"

definition json_string :: "string \<Rightarrow> string" where
  "json_string s = [CHR 0x22] @ concat (map json_escape s) @ [CHR 0x22]"

text \<open>\<^verbatim>\<open>JSON.stringify(options)\<close> for an array of strings.\<close>

definition json_stringify :: "string list \<Rightarrow> string" where
  "json_stringify opts = ''['' @ join '','' (map json_string opts) @ '']''"

text \<open>
  \<^verbatim>\<open>sanitizeAnswerFields(questionData)\<close>, lines 680-702: the properties whose key starts
  with \<^verbatim>\<open>answer\<close> and whose value is present, or \<^verbatim>\<open>null\<close> when there is none. The named
  properties of \<open>question_data\<close> do not start with \<^verbatim>\<open>answer\<close>.
\<close>

definition sanitizeAnswerFields :: "question_data \<Rightarrow> (string \<times> string) list option" where
  "sanitizeAnswerFields questionData =
     (let answerFields =
            concat (map (\<lambda>(key, val). case val of
                                    None \<Rightarrow> []
                                  | Some v \<Rightarrow> if startsWith key ''answer'' then [(key, v)] else [])
                        (qd_other_fields questionData))
      in if answerFields = [] then None else Some answerFields)"

text \<open>Lines 967-969, the confidence computed inline.\<close>

definition inline_confidence :: "question_data \<Rightarrow> rat" where
  "inline_confidence questionData =
     (if truthy_correct (qd_correct questionData)
      then min 1 (num_or (qd_points questionData) 0 / num_or (qd_points_possible questionData) 1)
      else 0)"

text \<open>Lines 956-965, the row pushed to \<^verbatim>\<open>submissionsToSave\<close>.\<close>

definition submission_row_of :: "string \<Rightarrow> string \<Rightarrow> question_data \<Rightarrow> submission_row" where
  "submission_row_of questionHash quizId questionData =
     \<lparr>user_answer = or_else (qd_text questionData) None,
      is_correct = (case qd_correct questionData of CBool b \<Rightarrow> Some b | _ \<Rightarrow> None),
      points_earned = Some (case qd_points questionData of Some v \<Rightarrow> v | None \<Rightarrow> 0),
      points_possible = Some (case qd_points_possible questionData of Some v \<Rightarrow> v | None \<Rightarrow> 1),
      answer_fields = sanitizeAnswerFields questionData,
      question_hash = questionHash,
      quiz_id = quizId,
      canvas_question_id = qd_question_id questionData\<rparr>"

text \<open>Lines 840-851: the text, the type, the options and the provenance of the candidate.\<close>

definition candidate_text :: "dom_question option \<Rightarrow> question_data \<Rightarrow> string" where
  "candidate_text domQuestion questionData =
     or_default (or_else (Option.bind domQuestion dq_questionText) (qd_question_text questionData))
       (''Question '' @ qd_question_id questionData)"

definition candidate_type :: "dom_question option \<Rightarrow> question_data \<Rightarrow> string" where
  "candidate_type domQuestion questionData =
     or_default (or_else (Option.bind domQuestion dq_questionType) (qd_question_type questionData))
       ''unknown''"

definition candidate_options :: "dom_question option \<Rightarrow> string list option" where
  "candidate_options domQuestion = Option.bind domQuestion dq_options"

definition candidate_source :: "dom_question option \<Rightarrow> question_data \<Rightarrow> string" where
  "candidate_source domQuestion questionData =
     (if truthy_str (Option.bind domQuestion dq_questionText) then ''dom''
      else if truthy_str (qd_question_text questionData)
              \<and> \<not> matches_placeholder (or_default (qd_question_text questionData) [])
           then ''canvas_api''
      else ''placeholder'')"

subsection \<open>The batch path: choosing the hash of a question\<close>

text \<open>
  Lines 857-925: \<open>d_questionHash\<close>, \<open>d_shouldSaveQuestion\<close> and \<open>d_oldHashToMerge\<close>
  are the three variables the branch assigns. The text handed to
  \<^verbatim>\<open>generateQuestionHash\<close> is never missing here (the chain of \<^verbatim>\<open>||\<close> at line 841 ends in
  a template literal), so the call stands as \<open>questionHashOf\<close>; likewise
  \<^verbatim>\<open>calculateTextQuality\<close> stands as \<open>textQualityOf\<close>.
\<close>

record hash_decision =
  d_questionHash :: string
  d_shouldSaveQuestion :: bool
  d_oldHashToMerge :: "string option"

definition resolve_hash ::
  "string \<Rightarrow> string \<Rightarrow> string \<Rightarrow> string \<Rightarrow> string list option \<Rightarrow> string \<Rightarrow> int
     \<Rightarrow> existing_question option \<Rightarrow> hash_decision" where
  "resolve_hash courseId questionId questionText questionType options textSource textQuality
       existingQuestion =
     (case existingQuestion of
        Some existing \<Rightarrow>
          (let existingQuality = int_or (eq_text_quality_score existing) 0 in
           if textQuality > existingQuality
           then (let oldHash = eq_question_hash existing;
                     newHash = (if textSource = ''placeholder'' then oldHash
                                else questionHashOf questionText questionType options)
                 in if newHash \<noteq> oldHash
                    then \<lparr>d_questionHash = newHash, d_shouldSaveQuestion = True,
                          d_oldHashToMerge = Some oldHash\<rparr>
                    else \<lparr>d_questionHash = oldHash, d_shouldSaveQuestion = True,
                          d_oldHashToMerge = None\<rparr>)
           else \<lparr>d_questionHash = eq_question_hash existing, d_shouldSaveQuestion = False,
                 d_oldHashToMerge = None\<rparr>)
      | None \<Rightarrow>
          (if textSource = ''placeholder''
           then \<lparr>d_questionHash = ''canvas_'' @ questionId @ ''_'' @ courseId,
                 d_shouldSaveQuestion = True, d_oldHashToMerge = None\<rparr>
           else \<lparr>d_questionHash = questionHashOf questionText questionType options,
                 d_shouldSaveQuestion = True, d_oldHashToMerge = None\<rparr>))"

text \<open>Lines 943-952, the row pushed to \<^verbatim>\<open>questionsToSave\<close>.\<close>

definition question_row_of ::
  "string \<Rightarrow> string \<Rightarrow> string \<Rightarrow> string \<Rightarrow> string \<Rightarrow> string list option \<Rightarrow> string \<Rightarrow> int
     \<Rightarrow> existing_question option \<Rightarrow> question_row" where
  "question_row_of courseId quizId questionHash questionText questionType options textSource
       textQuality existingQuestion =
     \<lparr>q_question_hash = questionHash,
      q_question_text = questionText,
      q_question_type = questionType,
      q_course_id = courseId,
      q_first_seen_quiz_id =
        (case existingQuestion of Some existing \<Rightarrow> eq_first_seen_quiz_id existing | None \<Rightarrow> quizId),
      q_text_quality_score = textQuality,
      q_text_source = textSource,
      q_metadata = (case options of Some opts \<Rightarrow> Some (json_stringify opts) | None \<Rightarrow> None)\<rparr>"

text \<open>Lines 927-939, the entry that records whether a merge is needed.\<close>

definition merge_entry :: "hash_decision \<Rightarrow> processed" where
  "merge_entry d =
     (if truthy_str (d_oldHashToMerge d)
      then MergeInfo (d_questionHash d) (d_oldHashToMerge d) True
      else MergeInfo (d_questionHash d) None False)"

subsection \<open>The batch path: the loop\<close>

text \<open>
  The body of the inner loop, lines 831-981, for one \<^verbatim>\<open>questionData\<close>. The statements run
  in the order of the source; the map \<^verbatim>\<open>processedQuestions\<close> is written at lines 929-938
  and again at line 980.
\<close>

definition process_question ::
  "string \<Rightarrow> string \<Rightarrow> (string \<rightharpoonup> dom_question) \<Rightarrow> (string \<rightharpoonup> existing_question)
     \<Rightarrow> batch_state \<Rightarrow> question_data \<Rightarrow> batch_state" where
  "process_question courseId quizId domQuestionMap existingByCanvasId st questionData =
     (let questionId = qd_question_id questionData in
      if map_of (processedQuestions st) questionId \<noteq> None then st
      else
        (let domQuestion = domQuestionMap questionId;
             questionText = candidate_text domQuestion questionData;
             questionType = candidate_type domQuestion questionData;
             options = candidate_options domQuestion;
             textSource = candidate_source domQuestion questionData;
             textQuality = textQualityOf questionText textSource;
             existingQuestion = existingByCanvasId questionId;
             d = resolve_hash courseId questionId questionText questionType options textSource
                   textQuality existingQuestion;
             questionHash = d_questionHash d;
             processed1 = AList.update questionId (merge_entry d) (processedQuestions st);
             questions =
               (if d_shouldSaveQuestion d
                then questionsToSave st @
                       [question_row_of courseId quizId questionHash questionText questionType
                          options textSource textQuality existingQuestion]
                else questionsToSave st);
             submissions = submissionsToSave st @ [submission_row_of questionHash quizId questionData];
             confidence = inline_confidence questionData;
             bestAnswers = bestAnswersToUpdate st @
                [\<lparr>b_question_hash = questionHash,
                  b_answer_text = qd_text questionData,
                  b_answer_fields = questionData,
                  b_confidence_score = confidence,
                  b_source_submission_id = None\<rparr>];
             processed2 = AList.update questionId (HashString questionHash) processed1
         in \<lparr>questionsToSave = questions,
             submissionsToSave = submissions,
             bestAnswersToUpdate = bestAnswers,
             processedQuestions = processed2\<rparr>))"

text \<open>Lines 828-982: both loops; a submission without \<^verbatim>\<open>submission_data\<close> is skipped.\<close>

definition process_submission ::
  "string \<Rightarrow> string \<Rightarrow> (string \<rightharpoonup> dom_question) \<Rightarrow> (string \<rightharpoonup> existing_question)
     \<Rightarrow> batch_state \<Rightarrow> canvas_submission \<Rightarrow> batch_state" where
  "process_submission courseId quizId domQuestionMap existingByCanvasId st submission =
     (case submission_data submission of
        None \<Rightarrow> st
      | Some qs \<Rightarrow> foldl (process_question courseId quizId domQuestionMap existingByCanvasId) st qs)"

text \<open>Lines 762-765: a later DOM question with the same identifier replaces an earlier one.\<close>

definition domQuestionMap_of :: "dom_question list \<Rightarrow> (string \<rightharpoonup> dom_question)" where
  "domQuestionMap_of domQuestions =
     foldl (\<lambda>m domQuestion. m(dq_canvas_question_id domQuestion \<mapsto> domQuestion)) Map.empty domQuestions"

text \<open>
  Lines 789-808: per identifier the stored question of highest quality, the first one
  among equals.
\<close>

definition existing_step ::
  "(string \<rightharpoonup> existing_question) \<Rightarrow> existing_question \<Rightarrow> (string \<rightharpoonup> existing_question)" where
  "existing_step m q =
     (case eq_canvas_question_id q of
        None \<Rightarrow> m
      | Some canvasId \<Rightarrow>
          if canvasId = [] then m
          else (case m canvasId of
                  None \<Rightarrow> m(canvasId \<mapsto> q)
                | Some existing \<Rightarrow>
                    if int_or (eq_text_quality_score q) 0 > int_or (eq_text_quality_score existing) 0
                    then m(canvasId \<mapsto> q) else m))"

definition existingByCanvasId_of :: "existing_question list \<Rightarrow> (string \<rightharpoonup> existing_question)" where
  "existingByCanvasId_of existingQuestions = foldl existing_step Map.empty existingQuestions"

subsection \<open>The batch path: deduplication and the result\<close>

text \<open>Lines 984-992.\<close>

definition dedup_step :: "(string \<times> best_answer) list \<Rightarrow> best_answer \<Rightarrow> (string \<times> best_answer) list" where
  "dedup_step bestAnswersByHash bestAnswer =
     (case map_of bestAnswersByHash (b_question_hash bestAnswer) of
        None \<Rightarrow> AList.update (b_question_hash bestAnswer) bestAnswer bestAnswersByHash
      | Some existing \<Rightarrow>
          if b_confidence_score bestAnswer > b_confidence_score existing
          then AList.update (b_question_hash bestAnswer) bestAnswer bestAnswersByHash
          else bestAnswersByHash)"

definition bestAnswersByHash_of :: "best_answer list \<Rightarrow> (string \<times> best_answer) list" where
  "bestAnswersByHash_of answers = foldl dedup_step [] answers"

definition deduplicate :: "best_answer list \<Rightarrow> best_answer list" where
  "deduplicate answers = map snd (bestAnswersByHash_of answers)"

text \<open>
  What \<^verbatim>\<open>processCanvasSubmissionsWithQuestionData\<close> hands to the remote store: the
  arguments of \<^verbatim>\<open>batchSaveQuestions\<close>, \<^verbatim>\<open>batchSaveSubmissions\<close> and
  \<^verbatim>\<open>batchUpdateBestAnswers\<close>, and \<^verbatim>\<open>mergesToProcess\<close> (line 1030), the entries for which
  \<^verbatim>\<open>mergeQuestionRecords(oldHash, newHash)\<close> is called. \<open>existingQuestions\<close> is the answer
  of the remote look-up at line 780. Left out, since they depend on the answers of the
  remote store: the submission identifiers copied into the best answers
  (lines 1009-1025) and the clean-up of stored duplicates (lines 1046-1069).
\<close>

record batch_result =
  r_questions :: "question_row list"
  r_submissions :: "submission_row list"
  r_bestAnswers :: "best_answer list"
  r_mergesToProcess :: "processed list"
  r_processedQuestions :: "(string \<times> processed) list"

definition process_all ::
  "string \<Rightarrow> string \<Rightarrow> canvas_submission list \<Rightarrow> dom_question list \<Rightarrow> existing_question list
     \<Rightarrow> batch_state" where
  "process_all courseId quizId submissions domQuestions existingQuestions =
     foldl (process_submission courseId quizId (domQuestionMap_of domQuestions)
              (existingByCanvasId_of existingQuestions))
       \<lparr>questionsToSave = [], submissionsToSave = [], bestAnswersToUpdate = [],
        processedQuestions = []\<rparr>
       submissions"

definition processCanvasSubmissionsWithQuestionData ::
  "string \<Rightarrow> string \<Rightarrow> canvas_submission list \<Rightarrow> dom_question list \<Rightarrow> existing_question list
     \<Rightarrow> batch_result" where
  "processCanvasSubmissionsWithQuestionData courseId quizId submissions domQuestions
       existingQuestions =
     (let st = process_all courseId quizId submissions domQuestions existingQuestions
      in \<lparr>r_questions = questionsToSave st,
          r_submissions = submissionsToSave st,
          r_bestAnswers = deduplicate (bestAnswersToUpdate st),
          r_mergesToProcess = filter needsMerge (map snd (processedQuestions st)),
          r_processedQuestions = processedQuestions st\<rparr>)"

subsection \<open>The rules as the specification words them\<close>

text \<open>
  The confidence of the specification: with \<open>pointsPossible > 0\<close> the ratio clamped to
  \<open>[0, 1]\<close>, otherwise 1 for a correct outcome and 0 for any other. A missing number
  counts as 0, as it does in JavaScript arithmetic.
\<close>

definition spec_confidence :: "'a submission_scheme \<Rightarrow> rat" where
  "spec_confidence s =
     (if num_or (points_possible s) 0 > 0
      then max 0 (min 1 (num_or (points_earned s) 0 / num_or (points_possible s) 0))
      else if is_correct s = Some True then 1 else 0)"

text \<open>
  \<open>first_of_max xs b\<close>: \<open>b\<close> occurs in \<open>xs\<close> at a place where every earlier entry of the
  same fingerprint has strictly smaller confidence and every later one has at most the
  same: \<open>b\<close> is the first entry of maximal confidence for its fingerprint.
\<close>

definition first_of_max :: "best_answer list \<Rightarrow> best_answer \<Rightarrow> bool" where
  "first_of_max xs b =
     (\<exists>pre post. xs = pre @ b # post
        \<and> (\<forall>y \<in> set pre. b_question_hash y = b_question_hash b
              \<longrightarrow> b_confidence_score y < b_confidence_score b)
        \<and> (\<forall>y \<in> set post. b_question_hash y = b_question_hash b
              \<longrightarrow> b_confidence_score y \<le> b_confidence_score b))"

text \<open>
  The invariant of the deduplication loop: after the entries \<open>xs\<close> the map \<open>m\<close> has one
  entry per fingerprint seen, filed under its own hash, and that entry is the first of
  maximal confidence.
\<close>

definition dedup_inv :: "best_answer list \<Rightarrow> (string \<times> best_answer) list \<Rightarrow> bool" where
  "dedup_inv xs m =
     (distinct (map fst m)
      \<and> (\<forall>h b. map_of m h = Some b \<longrightarrow> b_question_hash b = h \<and> first_of_max xs b)
      \<and> (\<forall>y \<in> set xs. map_of m (b_question_hash y) \<noteq> None))"

section \<open>Properties\<close>

lemmas eval_chars =
  is_space_def is_digit_def is_word_def code_unit_def lower_char_def char_of_def bit_Suc_0_iff

lemmas eval_hash =
  simpleHash_def hash_step_def toInt32_def code_unit_def toString36.simps digit36_def

lemmas eval_quality =
  calculateTextQuality_def textQualityOf_def matches_placeholder_def startsWith_def

lemmas eval_fingerprint =
  generateQuestionHash_def questionHashOf_def hashInput_def cleanText_def cleanOption_def
  trim_def toLowerCase_def

lemma generateQuestionHash_Some:
  "generateQuestionHash (Some t) questionType options = Inr (questionHashOf t questionType options)"
  by (simp add: generateQuestionHash_def)

lemma calculateTextQuality_Some:
  "calculateTextQuality (Some t) source = Inr (textQualityOf t source)"
  by (simp add: calculateTextQuality_def)

lemma num_or_Some_0: "num_or (Some c) 0 = c"
  by (simp add: num_or_def)

subsection \<open>C1: the confidence of \<^verbatim>\<open>updateBestAnswer\<close>\<close>

text \<open>
  C1 as stated fails: a correct submission with \<open>points_earned = 0\<close> and
  \<open>points_possible = 4\<close> gets confidence 1 from the code, where the specification's rule
  gives \<open>clamp (0 / 4) = 0\<close>. The code takes the ratio only when \<^verbatim>\<open>points_earned\<close> is truthy
  as well.
\<close>

theorem confidence_zero_points_counterexample:
  "confidenceScore \<lparr>user_answer = None, is_correct = Some True, points_earned = Some 0,
       points_possible = Some 4, answer_fields = None\<rparr>
   \<noteq> spec_confidence \<lparr>user_answer = None, is_correct = Some True, points_earned = Some 0,
       points_possible = Some 4, answer_fields = None\<rparr>"
  by (simp add: confidenceScore_def spec_confidence_def truthy_num_def num_or_def)

text \<open>
  C1, amended: for every submission the confidence is the ratio
  \<open>points_earned / points_possible\<close> clamped to \<open>[0, 1]\<close> when \<open>points_earned\<close> is present
  and not 0 and \<open>points_possible > 0\<close>; otherwise it is 1 for a correct submission and 0
  for any other. 3 points of 4 yield 0.75, and a correct submission with
  \<open>points_possible = 0\<close> yields 1.
\<close>

theorem confidence_rule:
  "confidenceScore s =
     (if truthy_num (points_earned s) \<and> num_or (points_possible s) 0 > 0
      then max 0 (min 1 (num_or (points_earned s) 0 / num_or (points_possible s) 0))
      else if is_correct s = Some True then 1 else 0)
   \<and> confidenceScore \<lparr>user_answer = a, is_correct = c, points_earned = Some 3,
         points_possible = Some 4, answer_fields = f\<rparr> = 0.75
   \<and> confidenceScore \<lparr>user_answer = a, is_correct = Some True, points_earned = e,
         points_possible = Some 0, answer_fields = f\<rparr> = 1.0"
  by (auto simp add: confidenceScore_def truthy_num_def num_or_def Let_def split: option.splits)

subsection \<open>C2: when the best answer is replaced\<close>

text \<open>
  C2: for every stored best answer and new submission, \<^verbatim>\<open>updateBestAnswer\<close> issues the
  write of a new best answer if and only if no best answer is stored or the confidence of
  the submission strictly exceeds the stored confidence (a stored confidence that is
  missing counts as 0). The write, when issued, carries this submission and its
  confidence; when none is issued the function returns nothing and the stored best answer
  stays as it is. Against a stored confidence of 0.5 a submission of confidence 0.5 writes
  nothing, and one of confidence 0.51 replaces the stored answer.
\<close>

theorem update_iff_strictly_better:
  "(issued (updateBestAnswer currentBest h s sid) \<noteq> None)
     = (currentBest = None
        \<or> (\<exists>best. currentBest = Some best
               \<and> confidenceScore s > num_or (sb_confidence_score best) 0))
   \<and> (issued (updateBestAnswer currentBest h s sid) = None
        \<or> issued (updateBestAnswer currentBest h s sid)
             = Some \<lparr>p_question_hash = h, p_answer_text = user_answer s,
                     p_answer_fields = answer_fields s, p_confidence_score = confidenceScore s,
                     p_source_submission_id = sid\<rparr>)
   \<and> (returned (updateBestAnswer currentBest h s sid) = None)
       = (issued (updateBestAnswer currentBest h s sid) = None)
   \<and> updateBestAnswer (Some (best\<lparr>sb_confidence_score := Some 0.5\<rparr>)) h
         \<lparr>user_answer = a, is_correct = c, points_earned = Some 1, points_possible = Some 2,
          answer_fields = f\<rparr> sid
       = \<lparr>issued = None, returned = None\<rparr>
   \<and> updateBestAnswer (Some (best\<lparr>sb_confidence_score := Some 0.5\<rparr>)) h
         \<lparr>user_answer = a, is_correct = c, points_earned = Some 51, points_possible = Some 100,
          answer_fields = f\<rparr> sid
       = \<lparr>issued = Some \<lparr>p_question_hash = h, p_answer_text = a, p_answer_fields = f,
                          p_confidence_score = 0.51, p_source_submission_id = sid\<rparr>,
          returned = Some (h, 0.51)\<rparr>"
proof -
  have c1: "confidenceScore \<lparr>user_answer = a, is_correct = c, points_earned = Some 1,
      points_possible = Some 2, answer_fields = f\<rparr> = 1 / 2"
    by (simp add: confidenceScore_def truthy_num_def num_or_def)
  have c2: "confidenceScore \<lparr>user_answer = a, is_correct = c, points_earned = Some 51,
      points_possible = Some 100, answer_fields = f\<rparr> = 51 / 100"
    by (simp add: confidenceScore_def truthy_num_def num_or_def)
  show ?thesis
    by (cases currentBest) (simp_all add: updateBestAnswer_def Let_def c1 c2 num_or_def)
qed

subsection \<open>C3: deduplication of the best answers\<close>

lemma first_of_max_mem: "first_of_max xs b \<Longrightarrow> b \<in> set xs"
  by (auto simp: first_of_max_def)

lemma first_of_max_bound:
  assumes "first_of_max xs b" "y \<in> set xs" "b_question_hash y = b_question_hash b"
  shows "b_confidence_score y \<le> b_confidence_score b"
proof -
  from assms(1) obtain pre post where d: "xs = pre @ b # post"
    and lt: "\<forall>y \<in> set pre. b_question_hash y = b_question_hash b
              \<longrightarrow> b_confidence_score y < b_confidence_score b"
    and le: "\<forall>y \<in> set post. b_question_hash y = b_question_hash b
              \<longrightarrow> b_confidence_score y \<le> b_confidence_score b"
    unfolding first_of_max_def by blast
  from assms(2) d consider "y \<in> set pre" | "y = b" | "y \<in> set post" by auto
  then show ?thesis
  proof cases
    case 1
    with lt assms(3) show ?thesis by (simp add: less_imp_le)
  next
    case 2
    then show ?thesis by simp
  next
    case 3
    with le assms(3) show ?thesis by simp
  qed
qed

lemma first_of_max_snoc_keep:
  assumes "first_of_max xs b"
    and "b_question_hash x = b_question_hash b \<longrightarrow> b_confidence_score x \<le> b_confidence_score b"
  shows "first_of_max (xs @ [x]) b"
proof -
  from assms(1) obtain pre post where d: "xs = pre @ b # post"
    and lt: "\<forall>y \<in> set pre. b_question_hash y = b_question_hash b
              \<longrightarrow> b_confidence_score y < b_confidence_score b"
    and le: "\<forall>y \<in> set post. b_question_hash y = b_question_hash b
              \<longrightarrow> b_confidence_score y \<le> b_confidence_score b"
    unfolding first_of_max_def by blast
  have "xs @ [x] = pre @ b # (post @ [x])" using d by simp
  moreover have "\<forall>y \<in> set (post @ [x]). b_question_hash y = b_question_hash b
              \<longrightarrow> b_confidence_score y \<le> b_confidence_score b"
    using le assms(2) by simp
  ultimately show ?thesis unfolding first_of_max_def using lt by blast
qed

lemma first_of_max_snoc_new:
  assumes "\<forall>y \<in> set xs. b_question_hash y = b_question_hash x
              \<longrightarrow> b_confidence_score y < b_confidence_score x"
  shows "first_of_max (xs @ [x]) x"
  unfolding first_of_max_def
proof (intro exI conjI)
  show "xs @ [x] = xs @ x # []" by simp
  show "\<forall>y \<in> set xs. b_question_hash y = b_question_hash x
              \<longrightarrow> b_confidence_score y < b_confidence_score x" by (rule assms)
  show "\<forall>y \<in> set []. b_question_hash y = b_question_hash x
              \<longrightarrow> b_confidence_score y \<le> b_confidence_score x" by simp
qed

lemma dedup_inv_lookup:
  assumes "dedup_inv xs m" "map_of m h = Some b"
  shows "b_question_hash b = h" and "first_of_max xs b"
  using assms unfolding dedup_inv_def by blast+

text \<open>A candidate that beats every earlier entry of its fingerprint is stored.\<close>

lemma dedup_inv_update:
  assumes inv: "dedup_inv xs m"
    and better: "\<forall>y \<in> set xs. b_question_hash y = b_question_hash x
                   \<longrightarrow> b_confidence_score y < b_confidence_score x"
  shows "dedup_inv (xs @ [x]) (AList.update (b_question_hash x) x m)"
  unfolding dedup_inv_def
proof (intro conjI)
  from inv have "distinct (map fst m)" by (simp add: dedup_inv_def)
  then show "distinct (map fst (AList.update (b_question_hash x) x m))"
    by (rule distinct_update)
next
  show "\<forall>h b. map_of (AList.update (b_question_hash x) x m) h = Some b
          \<longrightarrow> b_question_hash b = h \<and> first_of_max (xs @ [x]) b"
  proof (intro allI impI)
  fix h b
  assume a: "map_of (AList.update (b_question_hash x) x m) h = Some b"
  show "b_question_hash b = h \<and> first_of_max (xs @ [x]) b"
  proof (cases "h = b_question_hash x")
    case True
    with a have "b = x" by (simp add: update_conv')
    with True first_of_max_snoc_new[OF better] show ?thesis by simp
  next
    case False
    with a have m: "map_of m h = Some b" by (simp add: update_conv')
    note hb = dedup_inv_lookup[OF inv m]
    from False hb(1) have "b_question_hash x \<noteq> b_question_hash b" by simp
    then have "first_of_max (xs @ [x]) b"
      using hb(2) by (intro first_of_max_snoc_keep) simp_all
    with hb(1) show ?thesis by simp
  qed
  qed
next
  show "\<forall>y \<in> set (xs @ [x]).
          map_of (AList.update (b_question_hash x) x m) (b_question_hash y) \<noteq> None"
  proof
  fix y
  assume y: "y \<in> set (xs @ [x])"
  show "map_of (AList.update (b_question_hash x) x m) (b_question_hash y) \<noteq> None"
  proof (cases "b_question_hash y = b_question_hash x")
    case True
    then show ?thesis by (simp add: update_conv')
  next
    case False
    with y have "y \<in> set xs" by auto
    with inv have "map_of m (b_question_hash y) \<noteq> None" unfolding dedup_inv_def by blast
    with False show ?thesis by (simp add: update_conv')
  qed
  qed
qed

text \<open>A candidate that does not beat the stored entry of its fingerprint changes nothing.\<close>

lemma dedup_inv_keep:
  assumes inv: "dedup_inv xs m"
    and e: "map_of m (b_question_hash x) = Some e"
    and le: "b_confidence_score x \<le> b_confidence_score e"
  shows "dedup_inv (xs @ [x]) m"
  unfolding dedup_inv_def
proof (intro conjI)
  from inv show "distinct (map fst m)" by (simp add: dedup_inv_def)
next
  show "\<forall>h b. map_of m h = Some b \<longrightarrow> b_question_hash b = h \<and> first_of_max (xs @ [x]) b"
  proof (intro allI impI)
  fix h b
  assume m: "map_of m h = Some b"
  note hb = dedup_inv_lookup[OF inv m]
  have "b_question_hash x = b_question_hash b \<longrightarrow> b_confidence_score x \<le> b_confidence_score b"
  proof
    assume "b_question_hash x = b_question_hash b"
    with hb(1) m e have "b = e" by simp
    with le show "b_confidence_score x \<le> b_confidence_score b" by simp
  qed
  with hb(2) have "first_of_max (xs @ [x]) b" by (rule first_of_max_snoc_keep)
  with hb(1) show "b_question_hash b = h \<and> first_of_max (xs @ [x]) b" by simp
  qed
next
  show "\<forall>y \<in> set (xs @ [x]). map_of m (b_question_hash y) \<noteq> None"
  proof
  fix y
  assume y: "y \<in> set (xs @ [x])"
  show "map_of m (b_question_hash y) \<noteq> None"
  proof (cases "y = x")
    case True
    with e show ?thesis by simp
  next
    case False
    with y have "y \<in> set xs" by auto
    with inv show ?thesis unfolding dedup_inv_def by blast
  qed
  qed
qed

lemma dedup_inv_step:
  assumes inv: "dedup_inv xs m"
  shows "dedup_inv (xs @ [x]) (dedup_step m x)"
proof (cases "map_of m (b_question_hash x)")
  case None
  have "\<forall>y \<in> set xs. b_question_hash y = b_question_hash x
          \<longrightarrow> b_confidence_score y < b_confidence_score x"
  proof (intro ballI impI)
    fix y assume "y \<in> set xs" "b_question_hash y = b_question_hash x"
    with inv have "map_of m (b_question_hash x) \<noteq> None" unfolding dedup_inv_def by metis
    with None show "b_confidence_score y < b_confidence_score x" by simp
  qed
  with inv have "dedup_inv (xs @ [x]) (AList.update (b_question_hash x) x m)"
    by (rule dedup_inv_update)
  with None show ?thesis by (simp add: dedup_step_def)
next
  case (Some e)
  show ?thesis
  proof (cases "b_confidence_score x > b_confidence_score e")
    case True
    have "\<forall>y \<in> set xs. b_question_hash y = b_question_hash x
            \<longrightarrow> b_confidence_score y < b_confidence_score x"
    proof (intro ballI impI)
      fix y assume y: "y \<in> set xs" "b_question_hash y = b_question_hash x"
      note he = dedup_inv_lookup[OF inv Some]
      from y he(1) have "b_question_hash y = b_question_hash e" by simp
      with he(2) y(1) have "b_confidence_score y \<le> b_confidence_score e"
        by (rule first_of_max_bound)
      with True show "b_confidence_score y < b_confidence_score x" by simp
    qed
    with inv have "dedup_inv (xs @ [x]) (AList.update (b_question_hash x) x m)"
      by (rule dedup_inv_update)
    with Some True show ?thesis by (simp add: dedup_step_def)
  next
    case False
    then have "b_confidence_score x \<le> b_confidence_score e" by simp
    with inv Some have "dedup_inv (xs @ [x]) m" by (rule dedup_inv_keep)
    with Some False show ?thesis by (simp add: dedup_step_def)
  qed
qed

lemma dedup_inv_bestAnswersByHash_of: "dedup_inv xs (bestAnswersByHash_of xs)"
proof (induction xs rule: rev_induct)
  case Nil
  show ?case by (simp add: dedup_inv_def bestAnswersByHash_of_def)
next
  case (snoc x xs)
  then have "dedup_inv (xs @ [x]) (dedup_step (bestAnswersByHash_of xs) x)"
    by (rule dedup_inv_step)
  then show ?case by (simp add: bestAnswersByHash_of_def)
qed

lemma dedup_entry:
  assumes "(k, b) \<in> set (bestAnswersByHash_of xs)"
  shows "b_question_hash b = k" and "first_of_max xs b"
proof -
  have inv: "dedup_inv xs (bestAnswersByHash_of xs)" by (rule dedup_inv_bestAnswersByHash_of)
  then have "distinct (map fst (bestAnswersByHash_of xs))" by (simp add: dedup_inv_def)
  from this assms have m: "map_of (bestAnswersByHash_of xs) k = Some b" by (rule map_of_is_SomeI)
  show "b_question_hash b = k" and "first_of_max xs b"
    using dedup_inv_lookup[OF inv m] by simp_all
qed

lemma dedup_keys: "map b_question_hash (deduplicate xs) = map fst (bestAnswersByHash_of xs)"
proof -
  have "\<forall>p \<in> set (bestAnswersByHash_of xs). b_question_hash (snd p) = fst p"
  proof
    fix p assume "p \<in> set (bestAnswersByHash_of xs)"
    then have "(fst p, snd p) \<in> set (bestAnswersByHash_of xs)" by simp
    then show "b_question_hash (snd p) = fst p" by (rule dedup_entry(1))
  qed
  then show ?thesis by (simp add: deduplicate_def)
qed

lemma dedup_key_set: "fst ` set (bestAnswersByHash_of xs) = b_question_hash ` set xs"
proof (intro equalityI subsetI)
  fix h assume "h \<in> fst ` set (bestAnswersByHash_of xs)"
  then obtain b where kb: "(h, b) \<in> set (bestAnswersByHash_of xs)" by auto
  from dedup_entry[OF kb] first_of_max_mem[of xs b] show "h \<in> b_question_hash ` set xs"
    by (metis imageI)
next
  fix h assume "h \<in> b_question_hash ` set xs"
  then obtain y where y: "y \<in> set xs" "h = b_question_hash y" by auto
  have "dedup_inv xs (bestAnswersByHash_of xs)" by (rule dedup_inv_bestAnswersByHash_of)
  with y(1) have "map_of (bestAnswersByHash_of xs) (b_question_hash y) \<noteq> None"
    unfolding dedup_inv_def by blast
  with y(2) show "h \<in> fst ` set (bestAnswersByHash_of xs)"
    by (simp add: map_of_eq_None_iff)
qed

text \<open>
  C3: for every batch of candidates, deduplication keeps exactly one entry per
  fingerprint (the hashes of the result are distinct and are those of the input), and each
  entry kept is the first one of maximal confidence for its fingerprint in input order.
  For three candidates of one fingerprint with confidences 0.4, 0.9, 0.9 the entry kept is
  the second.
\<close>

theorem deduplicate_first_of_max:
  "distinct (map b_question_hash (deduplicate xs))
   \<and> set (map b_question_hash (deduplicate xs)) = set (map b_question_hash xs)
   \<and> (\<forall>b \<in> set (deduplicate xs). first_of_max xs b)
   \<and> deduplicate
        [\<lparr>b_question_hash = h, b_answer_text = Some ''first'', b_answer_fields = f1,
          b_confidence_score = 0.4, b_source_submission_id = None\<rparr>,
         \<lparr>b_question_hash = h, b_answer_text = Some ''second'', b_answer_fields = f2,
          b_confidence_score = 0.9, b_source_submission_id = None\<rparr>,
         \<lparr>b_question_hash = h, b_answer_text = Some ''third'', b_answer_fields = f3,
          b_confidence_score = 0.9, b_source_submission_id = None\<rparr>]
      = [\<lparr>b_question_hash = h, b_answer_text = Some ''second'', b_answer_fields = f2,
          b_confidence_score = 0.9, b_source_submission_id = None\<rparr>]"
proof (intro conjI)
  have "dedup_inv xs (bestAnswersByHash_of xs)" by (rule dedup_inv_bestAnswersByHash_of)
  then show "distinct (map b_question_hash (deduplicate xs))"
    by (simp add: dedup_keys dedup_inv_def)
  show "set (map b_question_hash (deduplicate xs)) = set (map b_question_hash xs)"
    using dedup_key_set[of xs] by (simp add: dedup_keys)
  show "\<forall>b \<in> set (deduplicate xs). first_of_max xs b"
  proof
    fix b assume "b \<in> set (deduplicate xs)"
    then obtain k where "(k, b) \<in> set (bestAnswersByHash_of xs)"
      by (auto simp: deduplicate_def)
    then show "first_of_max xs b" by (rule dedup_entry(2))
  qed
  show "deduplicate
        [\<lparr>b_question_hash = h, b_answer_text = Some ''first'', b_answer_fields = f1,
          b_confidence_score = 0.4, b_source_submission_id = None\<rparr>,
         \<lparr>b_question_hash = h, b_answer_text = Some ''second'', b_answer_fields = f2,
          b_confidence_score = 0.9, b_source_submission_id = None\<rparr>,
         \<lparr>b_question_hash = h, b_answer_text = Some ''third'', b_answer_fields = f3,
          b_confidence_score = 0.9, b_source_submission_id = None\<rparr>]
      = [\<lparr>b_question_hash = h, b_answer_text = Some ''second'', b_answer_fields = f2,
          b_confidence_score = 0.9, b_source_submission_id = None\<rparr>]"
    by (simp add: deduplicate_def bestAnswersByHash_of_def dedup_step_def)
qed

theorem deduplicate_first_of_max_witness:
  "first_of_max
     [\<lparr>b_question_hash = ''z7wxrj'', b_answer_text = Some ''first'',
       b_answer_fields =
         \<lparr>qd_question_id = ''5'', qd_question_text = None, qd_question_type = None,
          qd_text = Some ''first'', qd_correct = CBool True, qd_points = Some 2,
          qd_points_possible = Some 5, qd_other_fields = []\<rparr>,
       b_confidence_score = 0.4, b_source_submission_id = None\<rparr>,
      \<lparr>b_question_hash = ''z7wxrj'', b_answer_text = Some ''second'',
       b_answer_fields =
         \<lparr>qd_question_id = ''6'', qd_question_text = None, qd_question_type = None,
          qd_text = Some ''second'', qd_correct = CBool True, qd_points = Some 9,
          qd_points_possible = Some 10, qd_other_fields = []\<rparr>,
       b_confidence_score = 0.9, b_source_submission_id = None\<rparr>,
      \<lparr>b_question_hash = ''z7wxrj'', b_answer_text = Some ''third'',
       b_answer_fields =
         \<lparr>qd_question_id = ''7'', qd_question_text = None, qd_question_type = None,
          qd_text = Some ''third'', qd_correct = CBool True, qd_points = Some 9,
          qd_points_possible = Some 10, qd_other_fields = []\<rparr>,
       b_confidence_score = 0.9, b_source_submission_id = None\<rparr>]
     \<lparr>b_question_hash = ''z7wxrj'', b_answer_text = Some ''second'',
       b_answer_fields =
         \<lparr>qd_question_id = ''6'', qd_question_text = None, qd_question_type = None,
          qd_text = Some ''second'', qd_correct = CBool True, qd_points = Some 9,
          qd_points_possible = Some 10, qd_other_fields = []\<rparr>,
       b_confidence_score = 0.9, b_source_submission_id = None\<rparr>"
proof -
  let ?xs = "[\<lparr>b_question_hash = ''z7wxrj'', b_answer_text = Some ''first'',
       b_answer_fields =
         \<lparr>qd_question_id = ''5'', qd_question_text = None, qd_question_type = None,
          qd_text = Some ''first'', qd_correct = CBool True, qd_points = Some 2,
          qd_points_possible = Some 5, qd_other_fields = []\<rparr>,
       b_confidence_score = 0.4, b_source_submission_id = None\<rparr>,
      \<lparr>b_question_hash = ''z7wxrj'', b_answer_text = Some ''second'',
       b_answer_fields =
         \<lparr>qd_question_id = ''6'', qd_question_text = None, qd_question_type = None,
          qd_text = Some ''second'', qd_correct = CBool True, qd_points = Some 9,
          qd_points_possible = Some 10, qd_other_fields = []\<rparr>,
       b_confidence_score = 0.9, b_source_submission_id = None\<rparr>,
      \<lparr>b_question_hash = ''z7wxrj'', b_answer_text = Some ''third'',
       b_answer_fields =
         \<lparr>qd_question_id = ''7'', qd_question_text = None, qd_question_type = None,
          qd_text = Some ''third'', qd_correct = CBool True, qd_points = Some 9,
          qd_points_possible = Some 10, qd_other_fields = []\<rparr>,
       b_confidence_score = 0.9, b_source_submission_id = None\<rparr>]"
  have d: "deduplicate ?xs
      = [\<lparr>b_question_hash = ''z7wxrj'', b_answer_text = Some ''second'',
           b_answer_fields =
             \<lparr>qd_question_id = ''6'', qd_question_text = None, qd_question_type = None,
              qd_text = Some ''second'', qd_correct = CBool True, qd_points = Some 9,
              qd_points_possible = Some 10, qd_other_fields = []\<rparr>,
           b_confidence_score = 0.9, b_source_submission_id = None\<rparr>]"
    by (simp add: deduplicate_def bestAnswersByHash_of_def dedup_step_def)
  have "\<forall>b \<in> set (deduplicate ?xs). first_of_max ?xs b"
    by (rule deduplicate_first_of_max[where xs = ?xs, THEN conjunct2, THEN conjunct2,
          THEN conjunct1])
  then show ?thesis unfolding d by simp
qed

subsection \<open>The loop body, step by step\<close>

text \<open>The second write to \<^verbatim>\<open>processedQuestions\<close> replaces the first.\<close>

lemma process_question_processed:
  assumes "map_of (processedQuestions st) (qd_question_id questionData) = None"
  shows "processedQuestions
           (process_question courseId quizId domQuestionMap existingByCanvasId st questionData)
         = AList.update (qd_question_id questionData)
             (HashString (d_questionHash
                (resolve_hash courseId (qd_question_id questionData)
                   (candidate_text (domQuestionMap (qd_question_id questionData)) questionData)
                   (candidate_type (domQuestionMap (qd_question_id questionData)) questionData)
                   (candidate_options (domQuestionMap (qd_question_id questionData)))
                   (candidate_source (domQuestionMap (qd_question_id questionData)) questionData)
                   (textQualityOf
                      (candidate_text (domQuestionMap (qd_question_id questionData)) questionData)
                      (candidate_source (domQuestionMap (qd_question_id questionData)) questionData))
                   (existingByCanvasId (qd_question_id questionData)))))
             (processedQuestions st)"
  using assms by (simp add: process_question_def Let_def)

lemma process_question_skip:
  assumes "map_of (processedQuestions st) (qd_question_id questionData) \<noteq> None"
  shows "process_question courseId quizId domQuestionMap existingByCanvasId st questionData = st"
  using assms by (simp add: process_question_def Let_def)

lemma values_update:
  "snd ` set (AList.update k v al) \<subseteq> insert v (snd ` set al)"
  by (induction al) auto

lemma process_question_no_merge:
  assumes "\<forall>v \<in> snd ` set (processedQuestions st). \<not> needsMerge v"
  shows "\<forall>v \<in> snd ` set (processedQuestions
            (process_question courseId quizId domQuestionMap existingByCanvasId st questionData)).
           \<not> needsMerge v"
proof (cases "map_of (processedQuestions st) (qd_question_id questionData)")
  case None
  have "\<exists>h. processedQuestions
            (process_question courseId quizId domQuestionMap existingByCanvasId st questionData)
          = AList.update (qd_question_id questionData) (HashString h) (processedQuestions st)"
    by (intro exI) (rule process_question_processed[OF None])
  then obtain h where eq: "processedQuestions
            (process_question courseId quizId domQuestionMap existingByCanvasId st questionData)
          = AList.update (qd_question_id questionData) (HashString h) (processedQuestions st)" ..
  show ?thesis
    unfolding eq
  proof
    fix v
    assume "v \<in> snd ` set (AList.update (qd_question_id questionData) (HashString h)
                            (processedQuestions st))"
    with values_update have "v \<in> insert (HashString h) (snd ` set (processedQuestions st))"
      by (rule subsetD)
    then have "v = HashString h \<or> v \<in> snd ` set (processedQuestions st)" by simp
    then show "\<not> needsMerge v"
    proof
      assume "v = HashString h"
      then show ?thesis by simp
    next
      assume "v \<in> snd ` set (processedQuestions st)"
      with assms show ?thesis by (rule bspec)
    qed
  qed
next
  case (Some p)
  then have "process_question courseId quizId domQuestionMap existingByCanvasId st questionData = st"
    by (intro process_question_skip) simp
  with assms show ?thesis by simp
qed

lemma foldl_process_question_no_merge:
  assumes "\<forall>v \<in> snd ` set (processedQuestions st). \<not> needsMerge v"
  shows "\<forall>v \<in> snd ` set (processedQuestions
            (foldl (process_question courseId quizId domQuestionMap existingByCanvasId) st qs)).
           \<not> needsMerge v"
  using assms
proof (induction qs arbitrary: st)
  case Nil
  then show ?case by simp
next
  case (Cons questionData qs)
  from Cons.prems
  have "\<forall>v \<in> snd ` set (processedQuestions
            (process_question courseId quizId domQuestionMap existingByCanvasId st questionData)).
           \<not> needsMerge v"
    by (rule process_question_no_merge)
  then show ?case unfolding foldl_Cons by (rule Cons.IH)
qed

lemma process_submission_no_merge:
  assumes "\<forall>v \<in> snd ` set (processedQuestions st). \<not> needsMerge v"
  shows "\<forall>v \<in> snd ` set (processedQuestions
            (process_submission courseId quizId domQuestionMap existingByCanvasId st submission)).
           \<not> needsMerge v"
proof (cases "submission_data submission")
  case None
  with assms show ?thesis by (simp add: process_submission_def)
next
  case (Some qs)
  from assms
  have "\<forall>v \<in> snd ` set (processedQuestions
            (foldl (process_question courseId quizId domQuestionMap existingByCanvasId) st qs)).
           \<not> needsMerge v"
    by (rule foldl_process_question_no_merge)
  with Some show ?thesis by (simp add: process_submission_def)
qed

lemma foldl_process_submission_no_merge:
  assumes "\<forall>v \<in> snd ` set (processedQuestions st). \<not> needsMerge v"
  shows "\<forall>v \<in> snd ` set (processedQuestions
            (foldl (process_submission courseId quizId domQuestionMap existingByCanvasId) st subs)).
           \<not> needsMerge v"
  using assms
proof (induction subs arbitrary: st)
  case Nil
  then show ?case by simp
next
  case (Cons submission subs)
  from Cons.prems
  have "\<forall>v \<in> snd ` set (processedQuestions
            (process_submission courseId quizId domQuestionMap existingByCanvasId st submission)).
           \<not> needsMerge v"
    by (rule process_submission_no_merge)
  then show ?case unfolding foldl_Cons by (rule Cons.IH)
qed

text \<open>
  Whatever the input, no entry of \<^verbatim>\<open>processedQuestions\<close> has \<^verbatim>\<open>needsMerge\<close> set when the
  loops are over, so \<^verbatim>\<open>mergesToProcess\<close> is empty.
\<close>

lemma mergesToProcess_empty:
  "r_mergesToProcess
     (processCanvasSubmissionsWithQuestionData courseId quizId submissions domQuestions
        existingQuestions) = []"
proof -
  have "\<forall>v \<in> snd ` set (processedQuestions
          (process_all courseId quizId submissions domQuestions existingQuestions)).
          \<not> needsMerge v"
    unfolding process_all_def by (rule foldl_process_submission_no_merge) simp
  then show ?thesis
    by (simp add: processCanvasSubmissionsWithQuestionData_def Let_def filter_empty_conv)
qed

text \<open>
  The branch at lines 862-908 taken alone follows the rule of the specification: a merge is
  noted exactly when the candidate's quality is strictly higher and the new hash differs
  from the stored one; with quality not higher the stored hash is kept and no row is
  written.
\<close>

lemma resolve_hash_existing:
  "(d_oldHashToMerge
      (resolve_hash courseId questionId questionText questionType options textSource textQuality
         (Some existing)) \<noteq> None)
     = (textQuality > int_or (eq_text_quality_score existing) 0
        \<and> (if textSource = ''placeholder'' then eq_question_hash existing
            else questionHashOf questionText questionType options) \<noteq> eq_question_hash existing)"
  by (simp add: resolve_hash_def Let_def)

lemma resolve_hash_keep:
  assumes "textQuality \<le> int_or (eq_text_quality_score existing) 0"
  shows "resolve_hash courseId questionId questionText questionType options textSource textQuality
           (Some existing)
         = \<lparr>d_questionHash = eq_question_hash existing, d_shouldSaveQuestion = False,
            d_oldHashToMerge = None\<rparr>"
  using assms by (simp add: resolve_hash_def Let_def)

lemma process_question_keep:
  assumes "map_of (processedQuestions st) (qd_question_id questionData) = None"
    and "existingByCanvasId (qd_question_id questionData) = Some existing"
    and "textQualityOf
           (candidate_text (domQuestionMap (qd_question_id questionData)) questionData)
           (candidate_source (domQuestionMap (qd_question_id questionData)) questionData)
         \<le> int_or (eq_text_quality_score existing) 0"
  shows "questionsToSave
           (process_question courseId quizId domQuestionMap existingByCanvasId st questionData)
         = questionsToSave st
       \<and> processedQuestions
           (process_question courseId quizId domQuestionMap existingByCanvasId st questionData)
         = AList.update (qd_question_id questionData) (HashString (eq_question_hash existing))
             (processedQuestions st)"
  using assms by (simp add: process_question_def Let_def resolve_hash_keep)

subsection \<open>C4: when a merge is scheduled\<close>

text \<open>
  C4 (the code departs from it): a merge from the old to the new fingerprint is to be
  scheduled exactly when the candidate's quality is strictly higher than the stored one and
  the new hash differs from the stored one. Take a stored placeholder question
  \<^verbatim>\<open>canvas_5_101\<close> of quality 0 and a capture of the same native question with the text
  \<^verbatim>\<open>What is 2+2?\<close> read from the page: the quality rises to 132 and the hash changes, so
  the entry written at lines 929-933 asks for the merge. Line 980 then replaces that entry
  by the bare hash, and at line 1030 nothing is left to merge: the loop at lines 1036-1038
  calls \<^verbatim>\<open>mergeQuestionRecords\<close> for no pair.
\<close>

theorem merge_entry_overwritten:
  "merge_entry
     (resolve_hash ''101'' ''5'' ''What is 2+2?'' ''short_answer_question'' None ''dom'' 132
        (Some \<lparr>eq_question_hash = ''canvas_5_101'', eq_question_text = ''Question 5'',
               eq_question_type = ''short_answer_question'', eq_course_id = ''101'',
               eq_first_seen_quiz_id = ''3'', eq_text_quality_score = Some 0,
               eq_text_source = ''placeholder'', eq_metadata = None,
               eq_canvas_question_id = Some ''5''\<rparr>))
     = MergeInfo ''z7wxrj'' (Some ''canvas_5_101'') True
   \<and> textQualityOf ''What is 2+2?'' ''dom'' = 132
   \<and> r_processedQuestions
        (processCanvasSubmissionsWithQuestionData ''101'' ''7''
          [\<lparr>submission_data = Some
              [\<lparr>qd_question_id = ''5'', qd_question_text = None,
                qd_question_type = Some ''short_answer_question'', qd_text = Some ''4'',
                qd_correct = CBool True, qd_points = Some 1, qd_points_possible = Some 1,
                qd_other_fields = []\<rparr>]\<rparr>]
          [\<lparr>dq_canvas_question_id = ''5'', dq_questionText = Some ''What is 2+2?'',
            dq_questionType = Some ''short_answer_question'', dq_options = None\<rparr>]
          [\<lparr>eq_question_hash = ''canvas_5_101'', eq_question_text = ''Question 5'',
            eq_question_type = ''short_answer_question'', eq_course_id = ''101'',
            eq_first_seen_quiz_id = ''3'', eq_text_quality_score = Some 0,
            eq_text_source = ''placeholder'', eq_metadata = None,
            eq_canvas_question_id = Some ''5''\<rparr>])
     = [(''5'', HashString ''z7wxrj'')]
   \<and> r_mergesToProcess
        (processCanvasSubmissionsWithQuestionData ''101'' ''7''
          [\<lparr>submission_data = Some
              [\<lparr>qd_question_id = ''5'', qd_question_text = None,
                qd_question_type = Some ''short_answer_question'', qd_text = Some ''4'',
                qd_correct = CBool True, qd_points = Some 1, qd_points_possible = Some 1,
                qd_other_fields = []\<rparr>]\<rparr>]
          [\<lparr>dq_canvas_question_id = ''5'', dq_questionText = Some ''What is 2+2?'',
            dq_questionType = Some ''short_answer_question'', dq_options = None\<rparr>]
          [\<lparr>eq_question_hash = ''canvas_5_101'', eq_question_text = ''Question 5'',
            eq_question_type = ''short_answer_question'', eq_course_id = ''101'',
            eq_first_seen_quiz_id = ''3'', eq_text_quality_score = Some 0,
            eq_text_source = ''placeholder'', eq_metadata = None,
            eq_canvas_question_id = Some ''5''\<rparr>])
     = []"
proof -
  let ?ex = "\<lparr>eq_question_hash = ''canvas_5_101'', eq_question_text = ''Question 5'',
               eq_question_type = ''short_answer_question'', eq_course_id = ''101'',
               eq_first_seen_quiz_id = ''3'', eq_text_quality_score = Some 0,
               eq_text_source = ''placeholder'', eq_metadata = None,
               eq_canvas_question_id = Some ''5''\<rparr>"
  let ?qd = "\<lparr>qd_question_id = ''5'', qd_question_text = None,
                qd_question_type = Some ''short_answer_question'', qd_text = Some ''4'',
                qd_correct = CBool True, qd_points = Some 1, qd_points_possible = Some 1,
                qd_other_fields = []\<rparr>"
  let ?dq = "\<lparr>dq_canvas_question_id = ''5'', dq_questionText = Some ''What is 2+2?'',
            dq_questionType = Some ''short_answer_question'', dq_options = None\<rparr>"
  let ?st = "\<lparr>questionsToSave = [], submissionsToSave = [], bestAnswersToUpdate = [],
              processedQuestions = []\<rparr>"
  have h: "questionHashOf ''What is 2+2?'' ''short_answer_question'' None = ''z7wxrj''"
    by (simp add: questionHashOf_def hashInput_def cleanText_def trim_def toLowerCase_def
        eval_chars eval_hash)
  have q: "textQualityOf ''What is 2+2?'' ''dom'' = 132"
    by (simp add: textQualityOf_def matches_placeholder_def startsWith_def)
  have d: "resolve_hash ''101'' ''5'' ''What is 2+2?'' ''short_answer_question'' None ''dom'' 132
             (Some ?ex)
           = \<lparr>d_questionHash = ''z7wxrj'', d_shouldSaveQuestion = True,
              d_oldHashToMerge = Some ''canvas_5_101''\<rparr>"
    by (simp add: resolve_hash_def int_or_def h)
  have dm: "domQuestionMap_of [?dq] ''5'' = Some ?dq"
    by (simp add: domQuestionMap_of_def)
  have em: "existingByCanvasId_of [?ex] ''5'' = Some ?ex"
    by (simp add: existingByCanvasId_of_def existing_step_def)
  have cand: "candidate_text (Some ?dq) ?qd = ''What is 2+2?''"
    "candidate_type (Some ?dq) ?qd = ''short_answer_question''"
    "candidate_options (Some ?dq) = None"
    "candidate_source (Some ?dq) ?qd = ''dom''"
    by (simp_all add: candidate_text_def candidate_type_def candidate_options_def
        candidate_source_def or_else_def or_default_def truthy_str_def)
  have all: "process_all ''101'' ''7'' [\<lparr>submission_data = Some [?qd]\<rparr>] [?dq] [?ex]
             = process_question ''101'' ''7'' (domQuestionMap_of [?dq])
                 (existingByCanvasId_of [?ex]) ?st ?qd"
    by (simp add: process_all_def process_submission_def)
  have "processedQuestions
          (process_question ''101'' ''7'' (domQuestionMap_of [?dq]) (existingByCanvasId_of [?ex])
             ?st ?qd)
        = [(''5'', HashString ''z7wxrj'')]"
    by (subst process_question_processed) (simp_all add: dm em cand q d)
  then have p: "r_processedQuestions
        (processCanvasSubmissionsWithQuestionData ''101'' ''7''
          [\<lparr>submission_data = Some [?qd]\<rparr>] [?dq] [?ex])
     = [(''5'', HashString ''z7wxrj'')]"
    by (simp add: processCanvasSubmissionsWithQuestionData_def Let_def all)
  show ?thesis
    by (intro conjI) (simp_all add: d merge_entry_def truthy_str_def q p mergesToProcess_empty)
qed

subsection \<open>C5: the temporary hash of a new placeholder question\<close>

lemma process_all_single:
  "process_all courseId quizId [\<lparr>submission_data = Some [questionData]\<rparr>] domQuestions
     existingQuestions
   = process_question courseId quizId (domQuestionMap_of domQuestions)
       (existingByCanvasId_of existingQuestions)
       \<lparr>questionsToSave = [], submissionsToSave = [], bestAnswersToUpdate = [],
        processedQuestions = []\<rparr>
       questionData"
  by (simp add: process_all_def process_submission_def)

text \<open>
  C5 as stated fails: the temporary hash is not determined by the native question
  identifier and the quiz. The same question 5 of the same quiz 7 gets
  \<^verbatim>\<open>canvas_5_101\<close> in course 101 and \<^verbatim>\<open>canvas_5_102\<close> in course 102, and the quiz does not
  enter the hash at all: quiz 8 of course 101 gives \<^verbatim>\<open>canvas_5_101\<close> again.
\<close>

theorem placeholder_hash_counterexample:
  "r_processedQuestions
     (processCanvasSubmissionsWithQuestionData ''101'' ''7''
        [\<lparr>submission_data = Some
            [\<lparr>qd_question_id = ''5'', qd_question_text = None, qd_question_type = None,
              qd_text = Some ''4'', qd_correct = CBool True, qd_points = Some 1,
              qd_points_possible = Some 1, qd_other_fields = []\<rparr>]\<rparr>] [] [])
   \<noteq> r_processedQuestions
     (processCanvasSubmissionsWithQuestionData ''102'' ''7''
        [\<lparr>submission_data = Some
            [\<lparr>qd_question_id = ''5'', qd_question_text = None, qd_question_type = None,
              qd_text = Some ''4'', qd_correct = CBool True, qd_points = Some 1,
              qd_points_possible = Some 1, qd_other_fields = []\<rparr>]\<rparr>] [] [])
   \<and> r_processedQuestions
     (processCanvasSubmissionsWithQuestionData ''101'' ''7''
        [\<lparr>submission_data = Some
            [\<lparr>qd_question_id = ''5'', qd_question_text = None, qd_question_type = None,
              qd_text = Some ''4'', qd_correct = CBool True, qd_points = Some 1,
              qd_points_possible = Some 1, qd_other_fields = []\<rparr>]\<rparr>] [] [])
     = [(''5'', HashString ''canvas_5_101'')]
   \<and> r_processedQuestions
     (processCanvasSubmissionsWithQuestionData ''101'' ''8''
        [\<lparr>submission_data = Some
            [\<lparr>qd_question_id = ''5'', qd_question_text = None, qd_question_type = None,
              qd_text = Some ''4'', qd_correct = CBool True, qd_points = Some 1,
              qd_points_possible = Some 1, qd_other_fields = []\<rparr>]\<rparr>] [] [])
     = [(''5'', HashString ''canvas_5_101'')]"
proof -
  let ?qd = "\<lparr>qd_question_id = ''5'', qd_question_text = None, qd_question_type = None,
              qd_text = Some ''4'', qd_correct = CBool True, qd_points = Some 1,
              qd_points_possible = Some 1, qd_other_fields = []\<rparr>"
  have src: "candidate_source None ?qd = ''placeholder''"
    by (simp add: candidate_source_def truthy_str_def)
  have "r_processedQuestions
     (processCanvasSubmissionsWithQuestionData c q [\<lparr>submission_data = Some [?qd]\<rparr>] [] [])
     = [(''5'', HashString (''canvas_5_'' @ c))]" for c q
    unfolding processCanvasSubmissionsWithQuestionData_def Let_def process_all_single
    by (simp add: process_question_processed domQuestionMap_of_def existingByCanvasId_of_def
        src resolve_hash_def)
  then show ?thesis by simp
qed

text \<open>
  C5, amended: for every question observed with the placeholder source and no existing
  record, the hash assigned is not derived from the text: it is the temporary identity
  \<^verbatim>\<open>canvas_<nativeQuestionId>_<courseId>\<close>, determined by the native question identifier
  and the course, whatever the quiz. It is the hash of the question row, of the submission
  row and of the best answer that the step appends, and the one filed in
  \<^verbatim>\<open>processedQuestions\<close>.
\<close>

theorem placeholder_hash_scope:
  assumes "map_of (processedQuestions st) (qd_question_id questionData) = None"
    and "existingByCanvasId (qd_question_id questionData) = None"
    and "candidate_source (domQuestionMap (qd_question_id questionData)) questionData
           = ''placeholder''"
  shows "processedQuestions
           (process_question courseId quizId domQuestionMap existingByCanvasId st questionData)
         = AList.update (qd_question_id questionData)
             (HashString (''canvas_'' @ qd_question_id questionData @ ''_'' @ courseId))
             (processedQuestions st)
       \<and> map q_question_hash (questionsToSave
           (process_question courseId quizId domQuestionMap existingByCanvasId st questionData))
         = map q_question_hash (questionsToSave st)
             @ [''canvas_'' @ qd_question_id questionData @ ''_'' @ courseId]
       \<and> map question_hash (submissionsToSave
           (process_question courseId quizId domQuestionMap existingByCanvasId st questionData))
         = map question_hash (submissionsToSave st)
             @ [''canvas_'' @ qd_question_id questionData @ ''_'' @ courseId]
       \<and> map b_question_hash (bestAnswersToUpdate
           (process_question courseId quizId domQuestionMap existingByCanvasId st questionData))
         = map b_question_hash (bestAnswersToUpdate st)
             @ [''canvas_'' @ qd_question_id questionData @ ''_'' @ courseId]"
proof -
  have d: "resolve_hash courseId (qd_question_id questionData)
             (candidate_text (domQuestionMap (qd_question_id questionData)) questionData)
             (candidate_type (domQuestionMap (qd_question_id questionData)) questionData)
             (candidate_options (domQuestionMap (qd_question_id questionData)))
             (candidate_source (domQuestionMap (qd_question_id questionData)) questionData)
             (textQualityOf
                (candidate_text (domQuestionMap (qd_question_id questionData)) questionData)
                (candidate_source (domQuestionMap (qd_question_id questionData)) questionData))
             (existingByCanvasId (qd_question_id questionData))
           = \<lparr>d_questionHash = ''canvas_'' @ qd_question_id questionData @ ''_'' @ courseId,
              d_shouldSaveQuestion = True, d_oldHashToMerge = None\<rparr>"
    using assms(2,3) by (simp add: resolve_hash_def)
  show ?thesis
    using assms(1)
    by (simp add: process_question_def Let_def d question_row_of_def submission_row_of_def)
qed

theorem placeholder_hash_scope_witness:
  "processedQuestions
     (process_question ''101'' ''7'' Map.empty Map.empty
        \<lparr>questionsToSave = [], submissionsToSave = [], bestAnswersToUpdate = [],
         processedQuestions = []\<rparr>
        \<lparr>qd_question_id = ''5'', qd_question_text = Some ''Question 5'',
         qd_question_type = None, qd_text = Some ''4'', qd_correct = CBool True,
         qd_points = Some 1, qd_points_possible = Some 1, qd_other_fields = []\<rparr>)
   = [(''5'', HashString ''canvas_5_101'')]"
proof -
  let ?qd = "\<lparr>qd_question_id = ''5'', qd_question_text = Some ''Question 5'',
         qd_question_type = None, qd_text = Some ''4'', qd_correct = CBool True,
         qd_points = Some 1, qd_points_possible = Some 1, qd_other_fields = []\<rparr>"
  let ?st = "\<lparr>questionsToSave = [], submissionsToSave = [], bestAnswersToUpdate = [],
         processedQuestions = []\<rparr>"
  have a1: "map_of (processedQuestions ?st) (qd_question_id ?qd) = None" by simp
  have a2: "Map.empty (qd_question_id ?qd) = (None :: existing_question option)" by simp
  have a3: "candidate_source ((Map.empty :: string \<rightharpoonup> dom_question) (qd_question_id ?qd)) ?qd
              = ''placeholder''"
    by (simp add: candidate_source_def truthy_str_def or_default_def matches_placeholder_def
        startsWith_def eval_chars)
  from placeholder_hash_scope[where st = ?st and questionData = ?qd
      and existingByCanvasId = Map.empty and domQuestionMap = Map.empty
      and courseId = "''101''" and quizId = "''7''", OF a1 a2 a3]
  show ?thesis by simp
qed

subsection \<open>C6: what the row of a superseded question carries\<close>

text \<open>
  C6 as stated fails: the metadata of the row written is not taken from the original
  record. A stored question without metadata, superseded by a capture with the options
  3 and 4, is written with the JSON text of those options as metadata.
\<close>

theorem superseded_metadata_counterexample:
  "map q_metadata
     (r_questions
        (processCanvasSubmissionsWithQuestionData ''101'' ''7''
          [\<lparr>submission_data = Some
              [\<lparr>qd_question_id = ''5'', qd_question_text = None,
                qd_question_type = Some ''multiple_choice_question'', qd_text = Some ''4'',
                qd_correct = CBool True, qd_points = Some 1, qd_points_possible = Some 1,
                qd_other_fields = []\<rparr>]\<rparr>]
          [\<lparr>dq_canvas_question_id = ''5'', dq_questionText = Some ''What is 2+2?'',
            dq_questionType = Some ''multiple_choice_question'',
            dq_options = Some [''3'', ''4'']\<rparr>]
          [\<lparr>eq_question_hash = ''canvas_5_101'', eq_question_text = ''Question 5'',
            eq_question_type = ''multiple_choice_question'', eq_course_id = ''101'',
            eq_first_seen_quiz_id = ''3'', eq_text_quality_score = Some 0,
            eq_text_source = ''placeholder'', eq_metadata = None,
            eq_canvas_question_id = Some ''5''\<rparr>]))
   \<noteq> map eq_metadata
       [\<lparr>eq_question_hash = ''canvas_5_101'', eq_question_text = ''Question 5'',
         eq_question_type = ''multiple_choice_question'', eq_course_id = ''101'',
         eq_first_seen_quiz_id = ''3'', eq_text_quality_score = Some 0,
         eq_text_source = ''placeholder'', eq_metadata = None,
         eq_canvas_question_id = Some ''5''\<rparr>]"
proof -
  let ?ex = "\<lparr>eq_question_hash = ''canvas_5_101'', eq_question_text = ''Question 5'',
            eq_question_type = ''multiple_choice_question'', eq_course_id = ''101'',
            eq_first_seen_quiz_id = ''3'', eq_text_quality_score = Some 0,
            eq_text_source = ''placeholder'', eq_metadata = None,
            eq_canvas_question_id = Some ''5''\<rparr>"
  let ?qd = "\<lparr>qd_question_id = ''5'', qd_question_text = None,
                qd_question_type = Some ''multiple_choice_question'', qd_text = Some ''4'',
                qd_correct = CBool True, qd_points = Some 1, qd_points_possible = Some 1,
                qd_other_fields = []\<rparr>"
  let ?dq = "\<lparr>dq_canvas_question_id = ''5'', dq_questionText = Some ''What is 2+2?'',
            dq_questionType = Some ''multiple_choice_question'',
            dq_options = Some [''3'', ''4'']\<rparr>"
  have dm: "domQuestionMap_of [?dq] ''5'' = Some ?dq"
    by (simp add: domQuestionMap_of_def)
  have em: "existingByCanvasId_of [?ex] ''5'' = Some ?ex"
    by (simp add: existingByCanvasId_of_def existing_step_def)
  have cand: "candidate_text (Some ?dq) ?qd = ''What is 2+2?''"
    "candidate_options (Some ?dq) = Some [''3'', ''4'']"
    "candidate_source (Some ?dq) ?qd = ''dom''"
    by (simp_all add: candidate_text_def candidate_options_def
        candidate_source_def or_else_def or_default_def truthy_str_def)
  have q: "textQualityOf ''What is 2+2?'' ''dom'' = 132"
    by (simp add: textQualityOf_def matches_placeholder_def startsWith_def)
  have "map q_metadata
     (r_questions
        (processCanvasSubmissionsWithQuestionData ''101'' ''7''
          [\<lparr>submission_data = Some [?qd]\<rparr>] [?dq] [?ex]))
     = [Some (json_stringify [''3'', ''4''])]"
    unfolding processCanvasSubmissionsWithQuestionData_def Let_def process_all_single
    by (simp add: process_question_def Let_def dm em cand q resolve_hash_def int_or_def
        question_row_of_def)
  then show ?thesis by simp
qed

text \<open>
  C6, amended: for every question whose stored text is superseded (the candidate's quality
  is strictly higher, be it an update in place or a change of hash), the row written
  carries the first-seen quiz of the original record, not the quiz that triggered the
  update. Text, type, quality and source are the candidate's, the hash is the stored one
  for a placeholder candidate and the content hash otherwise, the course is the one of the
  call, and the metadata is the JSON text of the candidate's options, or missing when it
  has none: the metadata is not taken from the original.
\<close>

theorem superseded_row:
  assumes "map_of (processedQuestions st) (qd_question_id questionData) = None"
    and "existingByCanvasId (qd_question_id questionData) = Some existing"
    and "textQualityOf
           (candidate_text (domQuestionMap (qd_question_id questionData)) questionData)
           (candidate_source (domQuestionMap (qd_question_id questionData)) questionData)
         > int_or (eq_text_quality_score existing) 0"
  shows "questionsToSave
           (process_question courseId quizId domQuestionMap existingByCanvasId st questionData)
         = questionsToSave st @
            [\<lparr>q_question_hash =
                (if candidate_source (domQuestionMap (qd_question_id questionData)) questionData
                      = ''placeholder''
                 then eq_question_hash existing
                 else questionHashOf
                        (candidate_text (domQuestionMap (qd_question_id questionData)) questionData)
                        (candidate_type (domQuestionMap (qd_question_id questionData)) questionData)
                        (candidate_options (domQuestionMap (qd_question_id questionData)))),
              q_question_text =
                candidate_text (domQuestionMap (qd_question_id questionData)) questionData,
              q_question_type =
                candidate_type (domQuestionMap (qd_question_id questionData)) questionData,
              q_course_id = courseId,
              q_first_seen_quiz_id = eq_first_seen_quiz_id existing,
              q_text_quality_score =
                textQualityOf
                  (candidate_text (domQuestionMap (qd_question_id questionData)) questionData)
                  (candidate_source (domQuestionMap (qd_question_id questionData)) questionData),
              q_text_source =
                candidate_source (domQuestionMap (qd_question_id questionData)) questionData,
              q_metadata =
                map_option json_stringify
                  (candidate_options (domQuestionMap (qd_question_id questionData)))\<rparr>]"
  using assms
  by (simp add: process_question_def Let_def resolve_hash_def question_row_of_def
      split: option.splits)

theorem superseded_row_witness:
  "questionsToSave
     (process_question ''101'' ''7''
        [''5'' \<mapsto> \<lparr>dq_canvas_question_id = ''5'', dq_questionText = Some ''What is 2+2?'',
                   dq_questionType = Some ''short_answer_question'', dq_options = None\<rparr>]
        [''5'' \<mapsto> \<lparr>eq_question_hash = ''canvas_5_101'', eq_question_text = ''Question 5'',
                   eq_question_type = ''short_answer_question'', eq_course_id = ''101'',
                   eq_first_seen_quiz_id = ''3'', eq_text_quality_score = Some 0,
                   eq_text_source = ''placeholder'', eq_metadata = None,
                   eq_canvas_question_id = Some ''5''\<rparr>]
        \<lparr>questionsToSave = [], submissionsToSave = [], bestAnswersToUpdate = [],
         processedQuestions = []\<rparr>
        \<lparr>qd_question_id = ''5'', qd_question_text = None,
         qd_question_type = Some ''short_answer_question'', qd_text = Some ''4'',
         qd_correct = CBool True, qd_points = Some 1, qd_points_possible = Some 1,
         qd_other_fields = []\<rparr>)
   = [\<lparr>q_question_hash = ''z7wxrj'', q_question_text = ''What is 2+2?'',
       q_question_type = ''short_answer_question'', q_course_id = ''101'',
       q_first_seen_quiz_id = ''3'', q_text_quality_score = 132, q_text_source = ''dom'',
       q_metadata = None\<rparr>]"
proof -
  let ?ex = "\<lparr>eq_question_hash = ''canvas_5_101'', eq_question_text = ''Question 5'',
               eq_question_type = ''short_answer_question'', eq_course_id = ''101'',
               eq_first_seen_quiz_id = ''3'', eq_text_quality_score = Some 0,
               eq_text_source = ''placeholder'', eq_metadata = None,
               eq_canvas_question_id = Some ''5''\<rparr>"
  let ?qd = "\<lparr>qd_question_id = ''5'', qd_question_text = None,
                qd_question_type = Some ''short_answer_question'', qd_text = Some ''4'',
                qd_correct = CBool True, qd_points = Some 1, qd_points_possible = Some 1,
                qd_other_fields = []\<rparr>"
  let ?dq = "\<lparr>dq_canvas_question_id = ''5'', dq_questionText = Some ''What is 2+2?'',
            dq_questionType = Some ''short_answer_question'', dq_options = None\<rparr>"
  let ?st = "\<lparr>questionsToSave = [], submissionsToSave = [], bestAnswersToUpdate = [],
              processedQuestions = []\<rparr>"
  have h: "questionHashOf ''What is 2+2?'' ''short_answer_question'' None = ''z7wxrj''"
    by (simp add: questionHashOf_def hashInput_def cleanText_def trim_def toLowerCase_def
        eval_chars eval_hash)
  have q: "textQualityOf ''What is 2+2?'' ''dom'' = 132"
    by (simp add: textQualityOf_def matches_placeholder_def startsWith_def)
  have cand: "candidate_text (Some ?dq) ?qd = ''What is 2+2?''"
    "candidate_type (Some ?dq) ?qd = ''short_answer_question''"
    "candidate_options (Some ?dq) = None"
    "candidate_source (Some ?dq) ?qd = ''dom''"
    by (simp_all add: candidate_text_def candidate_type_def candidate_options_def
        candidate_source_def or_else_def or_default_def truthy_str_def)
  have a1: "map_of (processedQuestions ?st) (qd_question_id ?qd) = None" by simp
  have a2: "[''5'' \<mapsto> ?ex] (qd_question_id ?qd) = Some ?ex" by simp
  have a3: "textQualityOf (candidate_text ([''5'' \<mapsto> ?dq] (qd_question_id ?qd)) ?qd)
              (candidate_source ([''5'' \<mapsto> ?dq] (qd_question_id ?qd)) ?qd)
            > int_or (eq_text_quality_score ?ex) 0"
    by (simp add: cand q int_or_def)
  from superseded_row[where st = ?st and questionData = ?qd
      and existingByCanvasId = "[''5'' \<mapsto> ?ex]" and domQuestionMap = "[''5'' \<mapsto> ?dq]"
      and existing = ?ex and courseId = "''101''" and quizId = "''7''", OF a1 a2 a3]
  show ?thesis
    by (simp add: cand q h)
qed

subsection \<open>C7: the order of the options\<close>

text \<open>
  C7: for every question text, question type and pair of option lists that are
  permutations of each other, \<^verbatim>\<open>generateQuestionHash\<close> gives the same result. The witness
  is the case of the options A, B and B, A of a multiple choice question, for every text.
\<close>

theorem fingerprint_option_order:
  assumes "mset options1 = mset options2"
  shows "generateQuestionHash t questionType (Some options1)
         = generateQuestionHash t questionType (Some options2)"
proof -
  have "mset (map cleanOption options1) = mset (map cleanOption options2)"
    using assms by (metis mset_map)
  then have "sort (map cleanOption options1) = sort (map cleanOption options2)"
    by (metis properties_for_sort sorted_sort mset_sort)
  then show ?thesis
    by (simp add: generateQuestionHash_def questionHashOf_def hashInput_def split: option.splits)
qed

theorem fingerprint_option_order_witness:
  "\<forall>t. generateQuestionHash t ''multiple_choice_question'' (Some [''A'', ''B''])
       = generateQuestionHash t ''multiple_choice_question'' (Some [''B'', ''A''])"
proof
  fix t
  have "mset [''A'', ''B''] = mset [''B'', ''A'']" by simp
  then show "generateQuestionHash t ''multiple_choice_question'' (Some [''A'', ''B''])
       = generateQuestionHash t ''multiple_choice_question'' (Some [''B'', ''A''])"
    by (rule fingerprint_option_order)
qed

subsection \<open>C8: two quality scores\<close>

text \<open>
  C8 as stated fails: the text \<^verbatim>\<open>What is the capital of France?\<close> has 30 code units, not
  31, so its score is not 161.
\<close>

theorem quality_161_counterexample:
  "calculateTextQuality (Some ''What is the capital of France?'') ''dom'' \<noteq> Inr 161"
  by (simp add: eval_quality)

text \<open>
  C8, amended: the placeholder text \<^verbatim>\<open>Question 5\<close> with the placeholder source scores
  exactly 0 (10 + 10 - 50, clamped), and \<^verbatim>\<open>What is the capital of France?\<close> with the
  directly observed source scores exactly 160 (100 + 30 + 20 + 10), so the former is
  strictly less than the latter.
\<close>

theorem quality_examples:
  "calculateTextQuality (Some ''Question 5'') ''placeholder'' = Inr 0
   \<and> calculateTextQuality (Some ''What is the capital of France?'') ''dom'' = Inr 160
   \<and> textQualityOf ''Question 5'' ''placeholder''
       < textQualityOf ''What is the capital of France?'' ''dom''"
  by (simp add: eval_quality eval_chars)

subsection \<open>C9: missing and empty question text\<close>

text \<open>
  C9 as stated fails: on the empty text neither function signals an error. The generator
  hashes the key \<^verbatim>\<open>multiple_choice_question:\<close> and the scorer returns the base score of
  the source.
\<close>

theorem empty_text_counterexample:
  "generateQuestionHash (Some '''') ''multiple_choice_question'' None = Inr ''57mhmj''
   \<and> calculateTextQuality (Some '''') ''dom'' = Inr 100"
  by (simp add: eval_fingerprint eval_hash eval_quality)

text \<open>
  C9, amended: on a missing text (\<^verbatim>\<open>null\<close> or \<^verbatim>\<open>undefined\<close>) the fingerprint generator and
  the quality scorer both throw a TypeError; on the empty text neither signals an error.
  The generator returns the hash of the key made of the type and a colon when it is called
  without options, and of that key followed by a second colon and the normalised, sorted
  options joined by a bar when it is called with options (for the type
  \<^verbatim>\<open>multiple_choice_question\<close> and the single option A the key is
  \<^verbatim>\<open>multiple_choice_question::a\<close>); the scorer returns the base score of the source.
\<close>

theorem missing_or_empty_text:
  "generateQuestionHash None questionType options = Inl TypeError
   \<and> calculateTextQuality None source = Inl TypeError
   \<and> generateQuestionHash (Some []) questionType options =
        Inr (simpleHash
               (case options of
                  None \<Rightarrow> questionType @ '':''
                | Some opts \<Rightarrow>
                    questionType @ '':'' @ '':'' @ join ''|'' (sort (map cleanOption opts))))
   \<and> generateQuestionHash (Some []) ''multiple_choice_question'' (Some [''A''])
       = Inr (simpleHash ''multiple_choice_question::a'')
   \<and> calculateTextQuality (Some []) source =
        Inr (if source = ''dom'' then 100 else if source = ''canvas_api'' then 50
             else if source = ''placeholder'' then 10 else 0)"
proof -
  have clean: "cleanText [] = []"
    by (simp add: cleanText_def trim_def toLowerCase_def)
  have opt: "cleanOption ''A'' = ''a''"
    by (simp add: cleanOption_def trim_def toLowerCase_def eval_chars)
  show ?thesis
    by (simp add: generateQuestionHash_def questionHashOf_def hashInput_def clean opt eval_quality
        split: option.splits)
qed

subsection \<open>C10: the two computations of the confidence\<close>

text \<open>
  C10 as stated fails: for an answer marked incorrect with 3 of 4 points the batch path
  computes the confidence 0, and \<^verbatim>\<open>updateBestAnswer\<close> computes 0.75 for the submission row
  that the batch path builds from the same data.
\<close>

theorem inline_confidence_counterexample:
  "inline_confidence
     \<lparr>qd_question_id = ''5'', qd_question_text = None, qd_question_type = None,
      qd_text = Some ''Paris'', qd_correct = CBool False, qd_points = Some 3,
      qd_points_possible = Some 4, qd_other_fields = []\<rparr>
   \<noteq> confidenceScore (submission_row_of ''z7wxrj'' ''7''
     \<lparr>qd_question_id = ''5'', qd_question_text = None, qd_question_type = None,
      qd_text = Some ''Paris'', qd_correct = CBool False, qd_points = Some 3,
      qd_points_possible = Some 4, qd_other_fields = []\<rparr>)"
  by (simp add: inline_confidence_def confidenceScore_def submission_row_of_def truthy_correct_def
      truthy_num_def num_or_def)

text \<open>
  C10, amended: the confidence computed inline by the batch path equals the one
  \<^verbatim>\<open>updateBestAnswer\<close> computes for the submission row built from the same data in two
  cases: when the answer is marked correct (any truthy value), the points earned are
  positive and the points possible are positive or missing; and when the answer is not
  marked correct and the points earned are missing or not positive.
\<close>

theorem inline_confidence_agrees:
  assumes "(truthy_correct (qd_correct qd)
             \<and> (\<exists>p. qd_points qd = Some p \<and> p > 0)
             \<and> (qd_points_possible qd = None \<or> (\<exists>pp. qd_points_possible qd = Some pp \<and> pp > 0)))
           \<or> (\<not> truthy_correct (qd_correct qd)
               \<and> (qd_points qd = None \<or> (\<exists>p. qd_points qd = Some p \<and> p \<le> 0)))"
  shows "inline_confidence qd = confidenceScore (submission_row_of h q qd)"
  using assms
  by (auto simp add: inline_confidence_def confidenceScore_def submission_row_of_def
      truthy_correct_def truthy_num_def num_or_def Let_def min_def max_def zero_le_divide_iff
      split: correct_value.splits option.splits if_splits)

theorem inline_confidence_agrees_witness:
  "inline_confidence
     \<lparr>qd_question_id = ''5'', qd_question_text = None, qd_question_type = None,
      qd_text = Some ''Paris'', qd_correct = CBool True, qd_points = Some 3,
      qd_points_possible = Some 4, qd_other_fields = []\<rparr>
   = confidenceScore (submission_row_of ''z7wxrj'' ''7''
     \<lparr>qd_question_id = ''5'', qd_question_text = None, qd_question_type = None,
      qd_text = Some ''Paris'', qd_correct = CBool True, qd_points = Some 3,
      qd_points_possible = Some 4, qd_other_fields = []\<rparr>)
   \<and> inline_confidence
     \<lparr>qd_question_id = ''5'', qd_question_text = None, qd_question_type = None,
      qd_text = Some ''Paris'', qd_correct = CBool True, qd_points = Some 3,
      qd_points_possible = Some 4, qd_other_fields = []\<rparr> = 0.75"
proof -
  let ?qd = "\<lparr>qd_question_id = ''5'', qd_question_text = None, qd_question_type = None,
      qd_text = Some ''Paris'', qd_correct = CBool True, qd_points = Some 3,
      qd_points_possible = Some 4, qd_other_fields = []\<rparr>"
  have hyp: "(truthy_correct (qd_correct ?qd)
             \<and> (\<exists>p. qd_points ?qd = Some p \<and> p > 0)
             \<and> (qd_points_possible ?qd = None
                 \<or> (\<exists>pp. qd_points_possible ?qd = Some pp \<and> pp > 0)))
           \<or> (\<not> truthy_correct (qd_correct ?qd)
               \<and> (qd_points ?qd = None \<or> (\<exists>p. qd_points ?qd = Some p \<and> p \<le> 0)))"
    by (simp add: truthy_correct_def)
  have v: "inline_confidence ?qd = 0.75"
    by (simp add: inline_confidence_def truthy_correct_def num_or_def)
  from inline_confidence_agrees[OF hyp, of "''z7wxrj''" "''7''"] v show ?thesis by simp
qed

end
